theory Spec2Isabelle
  imports Main "HOL-Library.Word"
begin

section \<open>The data that daemon/main.go handles\<close>

text \<open>
  The daemon's main package works on values of the packages rule, conman, netfilter and
  log. Their declarations are imported by main.go; what main.go reads of them is kept
  here: the fields it selects and the constants it compares with. Action, Duration and
  Operand are open (string-backed) enumerations in Go, so each has a constructor for every
  value that is not one of the constants main.go names.
\<close>

datatype Action = Allow | Deny | OtherAction string

datatype Duration = Once | Restart | Always | OtherDuration string

datatype Operand = OpTrue | OtherOperand string

record Operator =
  Operand :: Operand
  Data :: string

record Rule =
  Name :: string
  Action :: Action
  Duration :: Duration
  Operator :: Operator

record Connection =
  Process_Path :: string
  To :: string
  DstPort :: int

datatype Verdict = NF_ACCEPT | NF_DROP

datatype Signal = SIGHUP | SIGINT | SIGTERM | SIGQUIT

text \<open>
  Arguments handed to the logger. The colour helpers of package log and the conversions
  \<open>string(r.Action)\<close>, \<open>r.Operator.String()\<close> and \<open>%v\<close> of a signal or an error are kept
  symbolic: a log line records which expression was passed, not its rendering.
\<close>

datatype arg =
    Str string
  | Num int
  | ActionStr Action
  | OperatorString Operator
  | ErrorV string
  | SignalV Signal
  | Green arg
  | Red arg
  | Bold arg
  | Dim arg

datatype level = DEBUG | INFO | IMPORTANT | WARNING | ERROR | FATAL

text \<open>
  Everything main.go does to the outside is an event, in program order: a call of a
  collaborator, a verdict set on a packet, a counter bumped, a line logged.
\<close>

datatype 'pkt event =
    TrackAnswers_call 'pkt
  | Parse_call 'pkt
  | FindFirstMatch_call Connection
  | Ask_call Connection
  | Add_call Rule bool
  | SetVerdict 'pkt Verdict
  | OnDNSResponse
  | OnIgnored
  | OnConnectionEvent Connection "Rule option" bool
  | Log level string "arg list"
  | LogRaw string
  | SetOutput_Discard
  | Flag_Parse
  | Set_MinLevel level
  | OpenFile_call string
  | ExpandPath_call string
  | Signal_Notify "Signal list"
  | Go_signal_listener
  | Load_call string
  | NewClient_call string
  | Make_wrkChan
  | Go_worker int
  | NewNFQueue_call "16 word" nat
  | GetPackets_call
  | QueueDNSResponses_call bool int
  | QueueConnections_call bool int
  | RejectMarked_call bool
  | Forward 'pkt
  | Exit int

text \<open>
  The collaborators of \<open>onPacket\<close>. Each is a function of what the code passes to it; the
  rule store \<open>'st\<close> is the state behind the global \<open>rules\<close>: \<open>FindFirstMatch\<close> reads it,
  \<open>Add\<close> returns an error or nil together with the store it leaves. A \<open>*rule.Rule\<close> is a
  pointer, so a rule result is an option, \<open>None\<close> being nil.
\<close>

record ('pkt, 'st) collaborators =
  dns_TrackAnswers :: "'pkt \<Rightarrow> bool"
  conman_Parse :: "'pkt \<Rightarrow> Connection option"
  rules_FindFirstMatch :: "'st \<Rightarrow> Connection \<Rightarrow> Rule option"
  uiClient_Ask :: "Connection \<Rightarrow> Rule option \<times> bool"
  rules_Add :: "'st \<Rightarrow> Rule \<Rightarrow> bool \<Rightarrow> string option \<times> 'st"

record ('pkt, 'st) world =
  store :: 'st
  trace :: "'pkt event list"

datatype outcome = Returned | NilDereference string nat

section \<open>onPacket\<close>

definition emit :: "'pkt event \<Rightarrow> ('pkt, 'st) world \<Rightarrow> ('pkt, 'st) world" where
  "emit e w = w\<lparr>trace := trace w @ [e]\<rparr>"

text \<open>The two marks of the last log line, as the UTF-8 bytes of the Go string literals.\<close>

definition check_mark :: string where
  "check_mark = [CHR 0xE2, CHR 0x9C, CHR 0x94]"

definition cross_mark :: string where
  "cross_mark = [CHR 0xE2, CHR 0x9C, CHR 0x98]"

text \<open>\<open>rules.Add(r, saveToDisk)\<close>: the call is recorded and the store replaced by the one
  the collaborator leaves; the error (or nil) is handed back.\<close>

definition call_Add ::
  "('pkt, 'st) collaborators \<Rightarrow> Rule \<Rightarrow> bool \<Rightarrow> ('pkt, 'st) world \<Rightarrow> string option \<times> ('pkt, 'st) world" where
  "call_Add env r saveToDisk w =
     (let (err, st) = rules_Add env (store w) r saveToDisk
      in (err, emit (Add_call r saveToDisk) (w\<lparr>store := st\<rparr>)))"

text \<open>Lines 120 to 150: the body of \<open>if connected\<close>, for a rule that is not nil.\<close>

definition save_rule ::
  "('pkt, 'st) collaborators \<Rightarrow> Rule \<Rightarrow> ('pkt, 'st) world \<Rightarrow> ('pkt, 'st) world" where
  "save_rule env r w =
     (let action = (if Action r = Allow then Green (ActionStr (Action r))
                    else Red (ActionStr (Action r)));
          (ok, pers, w1) =
            (if Duration r = Restart then
               (case call_Add env r False w of
                  (Some err, w') \<Rightarrow>
                    (False, ''Added'', emit (Log ERROR ''Error while adding rule: %s'' [ErrorV err]) w')
                | (None, w') \<Rightarrow> (True, ''Added'', w'))
             else if Duration r = Always then
               (case call_Add env r True w of
                  (Some err, w') \<Rightarrow>
                    (False, ''Saved'', emit (Log ERROR ''Error while saving rule: %s'' [ErrorV err]) w')
                | (None, w') \<Rightarrow> (True, ''Saved'', w'))
             else (False, '''', w))
      in if ok
         then emit (Log IMPORTANT ''%s new rule: %s if %s''
                      [Str pers, action, OperatorString (Operator r)]) w1
         else w1)"

text \<open>Lines 156 to 169: the verdict and its log line, for a rule that is not nil.\<close>

definition set_verdict ::
  "'pkt \<Rightarrow> Connection \<Rightarrow> Rule \<Rightarrow> ('pkt, 'st) world \<Rightarrow> ('pkt, 'st) world" where
  "set_verdict packet con r w =
     (if Action r = Allow then
        (let w1 = emit (SetVerdict packet NF_ACCEPT) w;
             ruleName = (if Operand (Operator r) = OpTrue then Dim (Str (Name r))
                         else Green (Str (Name r)))
         in emit (Log DEBUG ''%s %s -> %s:%d (%s)''
                    [Bold (Green (Str check_mark)), Bold (Str (Process_Path con)),
                     Bold (Str (To con)), Num (DstPort con), ruleName]) w1)
      else
        (let w1 = emit (SetVerdict packet NF_DROP) w
         in emit (Log WARNING ''%s %s -> %s:%d (%s)''
                    [Bold (Red (Str cross_mark)), Bold (Str (Process_Path con)),
                     Bold (Str (To con)), Num (DstPort con), Red (Str (Name r))]) w1))"

text \<open>
  \<open>onPacket\<close>, lines 94 to 170. Selecting a field of a nil rule panics: at line 122
  (\<open>r.Action\<close>) when the client said it was connected, at line 156 (\<open>r.Action\<close> again)
  otherwise; the panic ends the run with the world as it was at that point.
  \<open>stats.OnConnectionEvent\<close> is only handed the pointer.
\<close>

definition onPacket ::
  "('pkt, 'st) collaborators \<Rightarrow> 'pkt \<Rightarrow> ('pkt, 'st) world \<Rightarrow> outcome \<times> ('pkt, 'st) world" where
  "onPacket env packet w0 =
     (let w1 = emit (TrackAnswers_call packet) w0 in
      if dns_TrackAnswers env packet = True then
        (Returned, emit OnDNSResponse (emit (SetVerdict packet NF_ACCEPT) w1))
      else
        (let w2 = emit (Parse_call packet) w1 in
         case conman_Parse env packet of
           None \<Rightarrow> (Returned, emit OnIgnored (emit (SetVerdict packet NF_ACCEPT) w2))
         | Some con \<Rightarrow>
             (let w3 = emit (FindFirstMatch_call con) w2 in
              case rules_FindFirstMatch env (store w3) con of
                Some r \<Rightarrow>
                  (Returned, set_verdict packet con r (emit (OnConnectionEvent con (Some r) False) w3))
              | None \<Rightarrow>
                  (let w4 = emit (Ask_call con) w3;
                       (r, connected) = uiClient_Ask env con
                   in if connected then
                        (case r of
                           None \<Rightarrow> (NilDereference ''r.Action'' 122, w4)
                         | Some r' \<Rightarrow>
                             (Returned,
                              set_verdict packet con r'
                                (emit (OnConnectionEvent con (Some r') True) (save_rule env r' w4))))
                      else
                        (case r of
                           None \<Rightarrow>
                             (NilDereference ''r.Action'' 156,
                              emit (OnConnectionEvent con None True) w4)
                         | Some r' \<Rightarrow>
                             (Returned,
                              set_verdict packet con r'
                                (emit (OnConnectionEvent con (Some r') True) w4)))))))"

text \<open>
  \<open>worker\<close>, lines 68 to 76, over the packets this worker has received from the channel
  so far: it logs its start and runs \<open>onPacket\<close> on each packet in turn. \<open>Returned\<close> here
  says that the worker is back at its \<open>select\<close>, waiting; a panic ends the loop.
\<close>

fun worker_loop ::
  "('pkt, 'st) collaborators \<Rightarrow> 'pkt list \<Rightarrow> ('pkt, 'st) world \<Rightarrow> outcome \<times> ('pkt, 'st) world" where
  "worker_loop env [] w = (Returned, w)"
| "worker_loop env (pkt # pkts) w =
     (case onPacket env pkt w of
        (Returned, w') \<Rightarrow> worker_loop env pkts w'
      | (NilDereference f l, w') \<Rightarrow> (NilDereference f l, w'))"

definition worker ::
  "('pkt, 'st) collaborators \<Rightarrow> int \<Rightarrow> 'pkt list \<Rightarrow> ('pkt, 'st) world \<Rightarrow> outcome \<times> ('pkt, 'st) world" where
  "worker env n pkts w = worker_loop env pkts (emit (Log DEBUG ''Worker #%d started.'' [Num n]) w)"

section \<open>Lifecycle: signals, workers, teardown, main\<close>

text \<open>The package-level variables that the flags set (lines 23 to 50).\<close>

record config =
  logFile :: string
  rulesPath :: string
  queueNum :: int
  workers :: int
  debug :: bool
  uiSocket :: string

text \<open>
  What \<open>main\<close> calls outside this file and branches on: each function hands back the
  error (\<open>None\<close> is nil) for the arguments the code passes. \<open>core.Name\<close> and
  \<open>core.Version\<close> are constants of package core.
\<close>

record system =
  core_Name :: string
  core_Version :: string
  os_OpenFile :: "string \<Rightarrow> string option"
  core_ExpandPath :: "string \<Rightarrow> string + string"
  rules_Load :: "string \<Rightarrow> string option"
  netfilter_NewNFQueue :: "16 word \<Rightarrow> string option"
  firewall_QueueDNSResponses :: "bool \<Rightarrow> int \<Rightarrow> string option"
  firewall_QueueConnections :: "bool \<Rightarrow> int \<Rightarrow> string option"
  firewall_RejectMarked :: "bool \<Rightarrow> string option"

datatype ending = Serving | Exited int | Panic string

text \<open>\<open>doCleanup\<close>, lines 87 to 92. The three results are discarded by the code.\<close>

definition doCleanup :: "config \<Rightarrow> 'pkt event list" where
  "doCleanup cfg =
     [Log INFO ''Cleaning up ...'' [],
      QueueDNSResponses_call False (queueNum cfg),
      QueueConnections_call False (queueNum cfg),
      RejectMarked_call False]"

text \<open>The goroutine of \<open>setupSignals\<close>, lines 59 to 65, once a signal has arrived.\<close>

definition signal_listener :: "config \<Rightarrow> Signal \<Rightarrow> ending \<times> 'pkt event list" where
  "signal_listener cfg sig =
     (Exited 0,
      [LogRaw [CHR 0x0A], Log IMPORTANT ''Got signal: %v'' [SignalV sig]]
      @ doCleanup cfg
      @ [Exit 0])"

text \<open>\<open>setupSignals\<close>, lines 52 to 66: register the four signals and start the listener.\<close>

definition setupSignals :: "'pkt event list" where
  "setupSignals = [Signal_Notify [SIGHUP, SIGINT, SIGTERM, SIGQUIT], Go_signal_listener]"

text \<open>\<open>setupWorkers\<close>, lines 78 to 85: the loop starts worker \<open>i\<close> for \<open>0 \<le> i < workers\<close>.\<close>

definition setupWorkers :: "config \<Rightarrow> 'pkt event list" where
  "setupWorkers cfg =
     [Log DEBUG ''Starting %d workers ...'' [Num (workers cfg)], Make_wrkChan]
     @ map Go_worker [0 .. workers cfg - 1]"

text \<open>
  Modelled from the spec: \<open>log.Fatal\<close> of package log is not in this file. Fatal errors
  print and exit immediately, with a non-zero status after logging: the line is logged
  and the process exits with status 1; nothing after the call runs.
\<close>

definition log_Fatal :: "string \<Rightarrow> arg list \<Rightarrow> 'pkt event list \<Rightarrow> ending \<times> 'pkt event list" where
  "log_Fatal fmt args tr = (Exited 1, tr @ [Log FATAL fmt args, Exit 1])"

text \<open>
  The packet loop of \<open>main\<close>, lines 221 to 226, over the packets the kernel queue has
  delivered so far: each is handed to the workers' channel; the loop never ends by itself.
\<close>

definition serve :: "'pkt list \<Rightarrow> 'pkt event list \<Rightarrow> ending \<times> 'pkt event list" where
  "serve pkts tr = (Serving, tr @ map Forward pkts)"

text \<open>\<open>main\<close>, lines 172 to 227, split where the code can leave: lines 172 to 188.\<close>

definition main_logging :: "config \<Rightarrow> system \<Rightarrow> string + 'pkt event list" where
  "main_logging cfg sys =
     (let tr = [SetOutput_Discard, Flag_Parse,
                Set_MinLevel (if debug cfg then DEBUG else INFO)];
          started = [Log IMPORTANT ''Starting %s v%s'' [Str (core_Name sys), Str (core_Version sys)]]
      in if logFile cfg \<noteq> [] then
           (case os_OpenFile sys (logFile cfg) of
              Some err \<Rightarrow> Inl err
            | None \<Rightarrow> Inr (tr @ [OpenFile_call (logFile cfg)] @ started))
         else Inr (tr @ started))"

text \<open>Lines 211 to 226: the three firewall rules, then the packet loop.\<close>

definition main_firewall ::
  "config \<Rightarrow> system \<Rightarrow> 'pkt list \<Rightarrow> 'pkt event list \<Rightarrow> ending \<times> 'pkt event list" where
  "main_firewall cfg sys pkts tr =
     (let tr1 = tr @ [QueueDNSResponses_call True (queueNum cfg)] in
      case firewall_QueueDNSResponses sys True (queueNum cfg) of
        Some err \<Rightarrow> log_Fatal ''Error while running DNS firewall rule: %s'' [ErrorV err] tr1
      | None \<Rightarrow>
          (let tr2 = tr1 @ [QueueConnections_call True (queueNum cfg)] in
           case firewall_QueueConnections sys True (queueNum cfg) of
             Some err \<Rightarrow>
               log_Fatal ''Error while running conntrack firewall rule: %s'' [ErrorV err] tr2
           | None \<Rightarrow>
               (let tr3 = tr2 @ [RejectMarked_call True] in
                case firewall_RejectMarked sys True of
                  Some err \<Rightarrow>
                    log_Fatal ''Error while running reject firewall rule: %s'' [ErrorV err] tr3
                | None \<Rightarrow>
                    serve pkts
                      (tr3 @ [Log INFO ''Running on netfilter queue #%d ...''
                                [Num (queueNum cfg)]]))))"

text \<open>Lines 190 to 209, and the whole of \<open>main\<close>. \<open>uint16(queueNum)\<close> keeps the low
  16 bits of the flag. \<open>NewNFQueue\<close> is also handed the library's default packet size; the
  event keeps the queue number and the queue length.\<close>

definition main :: "config \<Rightarrow> system \<Rightarrow> 'pkt list \<Rightarrow> ending \<times> 'pkt event list" where
  "main cfg sys pkts =
     (case main_logging cfg sys of
        Inl err \<Rightarrow>
          (Panic err,
           [SetOutput_Discard, Flag_Parse, Set_MinLevel (if debug cfg then DEBUG else INFO),
            OpenFile_call (logFile cfg)])
      | Inr tr0 \<Rightarrow>
          (let tr1 = tr0 @ [ExpandPath_call (rulesPath cfg)] in
           case core_ExpandPath sys (rulesPath cfg) of
             Inl err \<Rightarrow> log_Fatal ''%s'' [ErrorV err] tr1
           | Inr path \<Rightarrow>
               (let tr2 = tr1 @ setupSignals
                            @ [Log INFO ''Loading rules from %s ...'' [Str path], Load_call path] in
                case rules_Load sys path of
                  Some err \<Rightarrow> log_Fatal ''%s'' [ErrorV err] tr2
                | None \<Rightarrow>
                    (let tr3 = tr2 @ [NewClient_call (uiSocket cfg)] @ setupWorkers cfg
                                 @ [NewNFQueue_call (word_of_int (queueNum cfg)) 4096] in
                     case netfilter_NewNFQueue sys (word_of_int (queueNum cfg)) of
                       Some err \<Rightarrow>
                         log_Fatal ''Error while creating queue #%d: %s''
                           [Num (queueNum cfg), ErrorV err] tr3
                     | None \<Rightarrow> main_firewall cfg sys pkts (tr3 @ [GetPackets_call])))))"

section \<open>Reading a trace\<close>

text \<open>The verdicts set on one packet, the calls of each collaborator and the lines
  logged at one level, each in program order.\<close>

definition verdicts :: "'pkt \<Rightarrow> 'pkt event list \<Rightarrow> Verdict list" where
  "verdicts p tr =
     List.map_filter
       (\<lambda>e. case e of SetVerdict q v \<Rightarrow> (if q = p then Some v else None) | _ \<Rightarrow> None) tr"

definition parses :: "'pkt event list \<Rightarrow> 'pkt list" where
  "parses tr = List.map_filter (\<lambda>e. case e of Parse_call p \<Rightarrow> Some p | _ \<Rightarrow> None) tr"

definition matches :: "'pkt event list \<Rightarrow> Connection list" where
  "matches tr = List.map_filter (\<lambda>e. case e of FindFirstMatch_call c \<Rightarrow> Some c | _ \<Rightarrow> None) tr"

definition asks :: "'pkt event list \<Rightarrow> Connection list" where
  "asks tr = List.map_filter (\<lambda>e. case e of Ask_call c \<Rightarrow> Some c | _ \<Rightarrow> None) tr"

definition adds :: "'pkt event list \<Rightarrow> (Rule \<times> bool) list" where
  "adds tr = List.map_filter (\<lambda>e. case e of Add_call r b \<Rightarrow> Some (r, b) | _ \<Rightarrow> None) tr"

definition logged :: "level \<Rightarrow> 'pkt event list \<Rightarrow> (string \<times> arg list) list" where
  "logged l tr =
     List.map_filter
       (\<lambda>e. case e of Log l' fmt args \<Rightarrow> (if l' = l then Some (fmt, args) else None)
                     | _ \<Rightarrow> None) tr"

definition counted :: "'pkt event list \<Rightarrow> 'pkt event list" where
  "counted tr =
     filter (\<lambda>e. case e of OnDNSResponse \<Rightarrow> True | OnIgnored \<Rightarrow> True
                          | OnConnectionEvent c r m \<Rightarrow> True | _ \<Rightarrow> False) tr"

definition forwards :: "'pkt event list \<Rightarrow> 'pkt list" where
  "forwards tr = List.map_filter (\<lambda>e. case e of Forward p \<Rightarrow> Some p | _ \<Rightarrow> None) tr"

text \<open>The workers started, by number, and the calls of the three firewall hooks, each in
  program order.\<close>

definition started :: "'pkt event list \<Rightarrow> int list" where
  "started tr = List.map_filter (\<lambda>e. case e of Go_worker i \<Rightarrow> Some i | _ \<Rightarrow> None) tr"

definition hook_calls :: "'pkt event list \<Rightarrow> 'pkt event list" where
  "hook_calls tr =
     filter (\<lambda>e. case e of QueueDNSResponses_call b n \<Rightarrow> True
                          | QueueConnections_call b n \<Rightarrow> True
                          | RejectMarked_call b \<Rightarrow> True | _ \<Rightarrow> False) tr"

text \<open>\<open>precedes a b tr\<close>: some occurrence of \<open>a\<close> in \<open>tr\<close> has an occurrence of \<open>b\<close> after it.\<close>

fun precedes :: "'a \<Rightarrow> 'a \<Rightarrow> 'a list \<Rightarrow> bool" where
  "precedes a b [] = False"
| "precedes a b (x # xs) = ((x = a \<and> b \<in> set xs) \<or> precedes a b xs)"

section \<open>Reaching the oracle with nothing to read\<close>

text \<open>\<open>asked_nil env p w\<close>: on packet \<open>p\<close> in world \<open>w\<close> the run gets as far as
  \<open>uiClient.Ask\<close> (no DNS answer, a connection, no rule of the store matches) and the
  rule that \<open>Ask\<close> hands back is nil.\<close>

definition asked_nil :: "('pkt, 'st) collaborators \<Rightarrow> 'pkt \<Rightarrow> ('pkt, 'st) world \<Rightarrow> bool" where
  "asked_nil env p w =
     (\<not> dns_TrackAnswers env p \<and>
      (case conman_Parse env p of
         None \<Rightarrow> False
       | Some con \<Rightarrow>
           rules_FindFirstMatch env (store w) con = None \<and> fst (uiClient_Ask env con) = None))"

section \<open>Example collaborators\<close>

text \<open>Concrete collaborators to run the definitions on: a store of the rules in memory
  and of those on disk, an \<open>Add\<close> that appends and one that fails, and the connection and
  rules of the scenarios.\<close>

type_synonym example_store = "Rule list \<times> Rule list"

definition appending_Add :: "example_store \<Rightarrow> Rule \<Rightarrow> bool \<Rightarrow> string option \<times> example_store" where
  "appending_Add st r saveToDisk =
     (None, (fst st @ [r], if saveToDisk then snd st @ [r] else snd st))"

definition failing_Add :: "example_store \<Rightarrow> Rule \<Rightarrow> bool \<Rightarrow> string option \<times> example_store" where
  "failing_Add st r saveToDisk = (Some ''read-only file system'', st)"

definition curl_con :: Connection where
  "curl_con = \<lparr>Process_Path = ''/usr/bin/curl'', To = ''93.184.216.34'', DstPort = 443\<rparr>"

definition curl_operator :: Operator where
  "curl_operator = \<lparr>Operand = OtherOperand ''process.path'', Data = ''/usr/bin/curl''\<rparr>"

definition curl_rule :: "string \<Rightarrow> Action \<Rightarrow> Duration \<Rightarrow> Rule" where
  "curl_rule n a d = \<lparr>Name = n, Action = a, Duration = d, Operator = curl_operator\<rparr>"

definition path_match :: "example_store \<Rightarrow> Connection \<Rightarrow> Rule option" where
  "path_match st con = find (\<lambda>r. Data (Operator r) = Process_Path con) (fst st)"

definition dns_env :: "(nat, example_store) collaborators" where
  "dns_env =
     \<lparr>dns_TrackAnswers = (\<lambda>p. True), conman_Parse = (\<lambda>p. None),
      rules_FindFirstMatch = path_match, uiClient_Ask = (\<lambda>c. (None, False)),
      rules_Add = appending_Add\<rparr>"

definition unparsable_env :: "(nat, example_store) collaborators" where
  "unparsable_env =
     \<lparr>dns_TrackAnswers = (\<lambda>p. False), conman_Parse = (\<lambda>p. None),
      rules_FindFirstMatch = path_match, uiClient_Ask = (\<lambda>c. (None, False)),
      rules_Add = appending_Add\<rparr>"

definition oracle_env ::
  "Rule option \<times> bool \<Rightarrow> (example_store \<Rightarrow> Rule \<Rightarrow> bool \<Rightarrow> string option \<times> example_store)
     \<Rightarrow> (nat, example_store) collaborators" where
  "oracle_env answer add =
     \<lparr>dns_TrackAnswers = (\<lambda>p. False), conman_Parse = (\<lambda>p. Some curl_con),
      rules_FindFirstMatch = path_match, uiClient_Ask = (\<lambda>c. answer),
      rules_Add = add\<rparr>"

definition empty_world :: "(nat, example_store) world" where
  "empty_world = \<lparr>store = ([], []), trace = []\<rparr>"

definition curl_world :: "(nat, example_store) world" where
  "curl_world = \<lparr>store = ([curl_rule ''curl'' Allow Always], [curl_rule ''curl'' Allow Always]),
                 trace = []\<rparr>"

text \<open>The defaults of the package-level variables, lines 23 to 31, and a system in which
  every call succeeds.\<close>

definition default_config :: config where
  "default_config =
     \<lparr>logFile = [], rulesPath = ''rules'', queueNum = 0, workers = 16, debug = False,
      uiSocket = ''unix:///tmp/osui.sock''\<rparr>"

definition ok_system :: system where
  "ok_system =
     \<lparr>core_Name = ''opensnitch-daemon'', core_Version = ''1.0.0b'',
      os_OpenFile = (\<lambda>f. None), core_ExpandPath = Inr, rules_Load = (\<lambda>p. None),
      netfilter_NewNFQueue = (\<lambda>n. None), firewall_QueueDNSResponses = (\<lambda>e n. None),
      firewall_QueueConnections = (\<lambda>e n. None), firewall_RejectMarked = (\<lambda>e. None)\<rparr>"

text \<open>\<open>startup_succeeds cfg sys\<close>: every call of \<open>main\<close> that can fail hands back nil.\<close>

definition startup_succeeds :: "config \<Rightarrow> system \<Rightarrow> bool" where
  "startup_succeeds cfg sys =
     ((logFile cfg = [] \<or> os_OpenFile sys (logFile cfg) = None) \<and>
      (case core_ExpandPath sys (rulesPath cfg) of
         Inl err \<Rightarrow> False
       | Inr path \<Rightarrow> rules_Load sys path = None) \<and>
      netfilter_NewNFQueue sys (word_of_int (queueNum cfg)) = None \<and>
      firewall_QueueDNSResponses sys True (queueNum cfg) = None \<and>
      firewall_QueueConnections sys True (queueNum cfg) = None \<and>
      firewall_RejectMarked sys True = None)"

text \<open>The client answering with the rule \<open>curl-session\<close> of a given action and duration,
  connected or not, over a store whose \<open>Add\<close> appends, or over one whose \<open>Add\<close> fails.\<close>

definition answering :: "Action \<Rightarrow> Duration \<Rightarrow> bool \<Rightarrow> (nat, example_store) collaborators" where
  "answering a d connected = oracle_env (Some (curl_rule ''curl-session'' a d), connected) appending_Add"

definition answering_unsaved :: "Action \<Rightarrow> Duration \<Rightarrow> (nat, example_store) collaborators" where
  "answering_unsaved a d = oracle_env (Some (curl_rule ''curl-session'' a d), True) failing_Add"

text \<open>Systems in which one call fails and every other succeeds, and the default flags
  with a log file.\<close>

definition unwritable_log_system :: system where
  "unwritable_log_system = ok_system\<lparr>os_OpenFile := (\<lambda>f. Some ''permission denied'')\<rparr>"

definition unexpandable_system :: system where
  "unexpandable_system = ok_system\<lparr>core_ExpandPath := (\<lambda>p. Inl ''no home directory'')\<rparr>"

definition unloadable_system :: system where
  "unloadable_system = ok_system\<lparr>rules_Load := (\<lambda>p. Some ''no such directory'')\<rparr>"

definition queueless_system :: system where
  "queueless_system = ok_system\<lparr>netfilter_NewNFQueue := (\<lambda>n. Some ''operation not permitted'')\<rparr>"

definition dns_hook_failing_system :: system where
  "dns_hook_failing_system =
     ok_system\<lparr>firewall_QueueDNSResponses := (\<lambda>e n. Some ''iptables failed'')\<rparr>"

definition connections_hook_failing_system :: system where
  "connections_hook_failing_system =
     ok_system\<lparr>firewall_QueueConnections := (\<lambda>e n. Some ''iptables failed'')\<rparr>"

definition reject_hook_failing_system :: system where
  "reject_hook_failing_system =
     ok_system\<lparr>firewall_RejectMarked := (\<lambda>e. Some ''iptables failed'')\<rparr>"

definition logging_config :: config where
  "logging_config = default_config\<lparr>logFile := ''/var/log/opensnitchd.log''\<rparr>"

section \<open>Properties\<close>

subsection \<open>Reading traces piece by piece\<close>

lemma map_filter_append:
  "List.map_filter f (xs @ ys) = List.map_filter f xs @ List.map_filter f ys"
  by (simp add: List.map_filter_def)

lemma trace_emit: "trace (emit e w) = trace w @ [e]"
  by (simp add: emit_def)

lemma store_emit: "store (emit e w) = store w"
  by (simp add: emit_def)

lemma verdicts_append: "verdicts p (xs @ ys) = verdicts p xs @ verdicts p ys"
  by (simp add: verdicts_def map_filter_append)

lemma verdicts_Nil: "verdicts q [] = []"
  by (simp add: verdicts_def)

lemma verdicts_Cons:
  "verdicts q (e # es) =
     (case e of SetVerdict p v \<Rightarrow> (if p = q then [v] else []) | _ \<Rightarrow> []) @ verdicts q es"
  by (simp add: verdicts_def split: event.splits)

lemma parses_append: "parses (xs @ ys) = parses xs @ parses ys"
  by (simp add: parses_def map_filter_append)

lemma parses_Nil: "parses [] = []"
  by (simp add: parses_def)

lemma parses_Cons:
  "parses (e # es) = (case e of Parse_call p \<Rightarrow> [p] | _ \<Rightarrow> []) @ parses es"
  by (simp add: parses_def split: event.splits)

lemma matches_append: "matches (xs @ ys) = matches xs @ matches ys"
  by (simp add: matches_def map_filter_append)

lemma matches_Nil: "matches [] = []"
  by (simp add: matches_def)

lemma matches_Cons:
  "matches (e # es) = (case e of FindFirstMatch_call c \<Rightarrow> [c] | _ \<Rightarrow> []) @ matches es"
  by (simp add: matches_def split: event.splits)

lemma asks_append: "asks (xs @ ys) = asks xs @ asks ys"
  by (simp add: asks_def map_filter_append)

lemma asks_Nil: "asks [] = []"
  by (simp add: asks_def)

lemma asks_Cons:
  "asks (e # es) = (case e of Ask_call c \<Rightarrow> [c] | _ \<Rightarrow> []) @ asks es"
  by (simp add: asks_def split: event.splits)

lemma adds_append: "adds (xs @ ys) = adds xs @ adds ys"
  by (simp add: adds_def map_filter_append)

lemma adds_Nil: "adds [] = []"
  by (simp add: adds_def)

lemma adds_Cons:
  "adds (e # es) = (case e of Add_call r b \<Rightarrow> [(r, b)] | _ \<Rightarrow> []) @ adds es"
  by (simp add: adds_def split: event.splits)

lemma logged_append: "logged l (xs @ ys) = logged l xs @ logged l ys"
  by (simp add: logged_def map_filter_append)

lemma logged_Nil: "logged l [] = []"
  by (simp add: logged_def)

lemma logged_Cons:
  "logged l (e # es) =
     (case e of Log l' fmt args \<Rightarrow> (if l' = l then [(fmt, args)] else []) | _ \<Rightarrow> [])
     @ logged l es"
  by (simp add: logged_def split: event.splits)

lemma counted_append: "counted (xs @ ys) = counted xs @ counted ys"
  by (simp add: counted_def)

lemma counted_Nil: "counted [] = []"
  by (simp add: counted_def)

lemma counted_Cons:
  "counted (e # es) =
     (case e of OnDNSResponse \<Rightarrow> [e] | OnIgnored \<Rightarrow> [e] | OnConnectionEvent c r m \<Rightarrow> [e]
              | _ \<Rightarrow> []) @ counted es"
  by (simp add: counted_def split: event.splits)

lemma forwards_append: "forwards (xs @ ys) = forwards xs @ forwards ys"
  by (simp add: forwards_def map_filter_append)

lemma forwards_Nil: "forwards [] = []"
  by (simp add: forwards_def)

lemma forwards_Cons:
  "forwards (e # es) = (case e of Forward p \<Rightarrow> [p] | _ \<Rightarrow> []) @ forwards es"
  by (simp add: forwards_def split: event.splits)

lemma forwards_map_Forward: "forwards (map Forward ps) = ps"
  by (induction ps) (simp_all add: forwards_Nil forwards_Cons)

lemmas reading =
  trace_emit store_emit
  verdicts_append verdicts_Nil verdicts_Cons
  parses_append parses_Nil parses_Cons
  matches_append matches_Nil matches_Cons
  asks_append asks_Nil asks_Cons
  adds_append adds_Nil adds_Cons
  logged_append logged_Nil logged_Cons
  counted_append counted_Nil counted_Cons

subsection \<open>The verdict block and the saving block\<close>

lemma store_set_verdict: "store (set_verdict p con r w) = store w"
  by (simp add: set_verdict_def Let_def store_emit)

lemma verdicts_set_verdict:
  "verdicts q (trace (set_verdict p con r w)) =
     verdicts q (trace w)
     @ (if q = p then [if Action r = Allow then NF_ACCEPT else NF_DROP] else [])"
  by (simp add: set_verdict_def Let_def reading)

lemma adds_set_verdict: "adds (trace (set_verdict p con r w)) = adds (trace w)"
  by (simp add: set_verdict_def Let_def reading)

lemma logged_set_verdict:
  "l = IMPORTANT \<or> l = ERROR \<Longrightarrow> logged l (trace (set_verdict p con r w)) = logged l (trace w)"
  by (auto simp: set_verdict_def Let_def reading)

lemma verdicts_save_rule: "verdicts q (trace (save_rule env r w)) = verdicts q (trace w)"
  by (simp add: save_rule_def call_Add_def Let_def reading split: prod.splits option.splits)

lemma adds_save_rule:
  "adds (trace (save_rule env r w)) =
     adds (trace w) @ (if Duration r = Restart then [(r, False)]
                       else if Duration r = Always then [(r, True)] else [])"
  by (simp add: save_rule_def call_Add_def Let_def reading split: prod.splits option.splits)

lemma store_save_rule:
  "store (save_rule env r w) =
     (if Duration r = Restart then snd (rules_Add env (store w) r False)
      else if Duration r = Always then snd (rules_Add env (store w) r True)
      else store w)"
  by (simp add: save_rule_def call_Add_def Let_def store_emit split: prod.splits option.splits)

lemma errors_save_rule:
  "logged ERROR (trace (save_rule env r w)) =
     logged ERROR (trace w)
     @ (if Duration r = Restart then
          (case fst (rules_Add env (store w) r False) of
             Some err \<Rightarrow> [(''Error while adding rule: %s'', [ErrorV err])] | None \<Rightarrow> [])
        else if Duration r = Always then
          (case fst (rules_Add env (store w) r True) of
             Some err \<Rightarrow> [(''Error while saving rule: %s'', [ErrorV err])] | None \<Rightarrow> [])
        else [])"
  by (simp add: save_rule_def call_Add_def Let_def reading split: prod.splits option.splits)

lemma confirmations_save_rule:
  "logged IMPORTANT (trace (save_rule env r w)) =
     logged IMPORTANT (trace w)
     @ (if (Duration r = Restart \<or> Duration r = Always)
           \<and> fst (rules_Add env (store w) r (Duration r = Always)) = None
        then [(''%s new rule: %s if %s'',
               [Str (if Duration r = Restart then ''Added'' else ''Saved''),
                (if Action r = Allow then Green (ActionStr (Action r))
                 else Red (ActionStr (Action r))),
                OperatorString (Operator r)])]
        else [])"
  by (auto simp: save_rule_def call_Add_def Let_def reading split: prod.splits option.splits)

subsection \<open>The seven paths through onPacket\<close>

lemma onPacket_dns:
  assumes "dns_TrackAnswers env p"
  shows "onPacket env p w =
    (Returned, w\<lparr>trace := trace w @ [TrackAnswers_call p, SetVerdict p NF_ACCEPT, OnDNSResponse]\<rparr>)"
  using assms by (simp add: onPacket_def Let_def emit_def)

lemma onPacket_ignored:
  assumes "\<not> dns_TrackAnswers env p" and "conman_Parse env p = None"
  shows "onPacket env p w =
    (Returned,
     w\<lparr>trace := trace w @ [TrackAnswers_call p, Parse_call p, SetVerdict p NF_ACCEPT, OnIgnored]\<rparr>)"
  using assms by (simp add: onPacket_def Let_def emit_def)

lemma onPacket_matched:
  assumes "\<not> dns_TrackAnswers env p" and "conman_Parse env p = Some con"
    and "rules_FindFirstMatch env (store w) con = Some r"
  shows "onPacket env p w =
    (Returned,
     set_verdict p con r
       (w\<lparr>trace := trace w @ [TrackAnswers_call p, Parse_call p, FindFirstMatch_call con,
                               OnConnectionEvent con (Some r) False]\<rparr>))"
  using assms by (simp add: onPacket_def Let_def emit_def)

lemma onPacket_connected:
  assumes "\<not> dns_TrackAnswers env p" and "conman_Parse env p = Some con"
    and "rules_FindFirstMatch env (store w) con = None"
    and "uiClient_Ask env con = (Some r, True)"
  shows "onPacket env p w =
    (Returned,
     set_verdict p con r
       (emit (OnConnectionEvent con (Some r) True)
          (save_rule env r
             (w\<lparr>trace := trace w @ [TrackAnswers_call p, Parse_call p,
                                     FindFirstMatch_call con, Ask_call con]\<rparr>))))"
  using assms by (simp add: onPacket_def Let_def emit_def)

lemma onPacket_unreachable:
  assumes "\<not> dns_TrackAnswers env p" and "conman_Parse env p = Some con"
    and "rules_FindFirstMatch env (store w) con = None"
    and "uiClient_Ask env con = (Some r, False)"
  shows "onPacket env p w =
    (Returned,
     set_verdict p con r
       (w\<lparr>trace := trace w @ [TrackAnswers_call p, Parse_call p, FindFirstMatch_call con,
                               Ask_call con, OnConnectionEvent con (Some r) True]\<rparr>))"
  using assms by (simp add: onPacket_def Let_def emit_def)

lemma onPacket_nil_connected:
  assumes "\<not> dns_TrackAnswers env p" and "conman_Parse env p = Some con"
    and "rules_FindFirstMatch env (store w) con = None"
    and "uiClient_Ask env con = (None, True)"
  shows "onPacket env p w =
    (NilDereference ''r.Action'' 122,
     w\<lparr>trace := trace w @ [TrackAnswers_call p, Parse_call p, FindFirstMatch_call con,
                            Ask_call con]\<rparr>)"
  using assms by (simp add: onPacket_def Let_def emit_def)

lemma onPacket_nil_unreachable:
  assumes "\<not> dns_TrackAnswers env p" and "conman_Parse env p = Some con"
    and "rules_FindFirstMatch env (store w) con = None"
    and "uiClient_Ask env con = (None, False)"
  shows "onPacket env p w =
    (NilDereference ''r.Action'' 156,
     w\<lparr>trace := trace w @ [TrackAnswers_call p, Parse_call p, FindFirstMatch_call con,
                            Ask_call con, OnConnectionEvent con None True]\<rparr>)"
  using assms by (simp add: onPacket_def Let_def emit_def)

lemmas running =
  onPacket_def set_verdict_def save_rule_def call_Add_def emit_def Let_def
  verdicts_def parses_def matches_def asks_def adds_def logged_def counted_def

lemmas examples =
  dns_env_def unparsable_env_def oracle_env_def empty_world_def curl_world_def curl_rule_def
  curl_con_def curl_operator_def path_match_def appending_Add_def failing_Add_def
  answering_def answering_unsaved_def

subsection \<open>One verdict for each packet\<close>

text \<open>
  C1. Whenever \<open>onPacket\<close> returns, \<open>SetVerdict\<close> has been called exactly once on its
  packet: with \<open>NF_ACCEPT\<close> on the DNS branch, with \<open>NF_ACCEPT\<close> when no connection
  could be parsed, and with \<open>NF_ACCEPT\<close> or \<open>NF_DROP\<close> when one could. It returns on
  every run except the one in which \<open>Ask\<close> is reached and hands back a nil rule, which
  panics; no run sets more than one verdict on the packet, and none touches the verdicts
  of another packet.
\<close>

theorem exactly_one_verdict:
  assumes "onPacket env p w = (out, w')"
  shows "(out = Returned \<longrightarrow>
            (dns_TrackAnswers env p \<longrightarrow> verdicts p (trace w') = verdicts p (trace w) @ [NF_ACCEPT])
          \<and> (\<not> dns_TrackAnswers env p \<and> conman_Parse env p = None \<longrightarrow>
               verdicts p (trace w') = verdicts p (trace w) @ [NF_ACCEPT])
          \<and> (\<not> dns_TrackAnswers env p \<and> conman_Parse env p \<noteq> None \<longrightarrow>
               verdicts p (trace w') = verdicts p (trace w) @ [NF_ACCEPT]
             \<or> verdicts p (trace w') = verdicts p (trace w) @ [NF_DROP]))
       \<and> (out = Returned \<longleftrightarrow> \<not> asked_nil env p w)
       \<and> length (verdicts p (trace w')) \<le> Suc (length (verdicts p (trace w)))
       \<and> (\<forall>q. q \<noteq> p \<longrightarrow> verdicts q (trace w') = verdicts q (trace w))"
  using assms
  by (auto simp: onPacket_def asked_nil_def Let_def trace_emit store_emit verdicts_append
        verdicts_Nil verdicts_Cons verdicts_set_verdict verdicts_save_rule
      split: option.splits prod.splits if_splits)

theorem exactly_one_verdict_witness:
  "(dns_TrackAnswers dns_env 7
      \<and> fst (onPacket dns_env 7 empty_world) = Returned
      \<and> verdicts 7 (trace (snd (onPacket dns_env 7 empty_world))) = [NF_ACCEPT])
   \<and> (\<not> dns_TrackAnswers unparsable_env 7 \<and> conman_Parse unparsable_env 7 = None
      \<and> fst (onPacket unparsable_env 7 empty_world) = Returned
      \<and> verdicts 7 (trace (snd (onPacket unparsable_env 7 empty_world))) = [NF_ACCEPT])
   \<and> (\<not> dns_TrackAnswers (oracle_env (Some (curl_rule ''curl-session'' Deny Once), True) appending_Add) 7
      \<and> conman_Parse (oracle_env (Some (curl_rule ''curl-session'' Deny Once), True) appending_Add) 7 \<noteq> None
      \<and> \<not> asked_nil (oracle_env (Some (curl_rule ''curl-session'' Deny Once), True) appending_Add) 7 empty_world
      \<and> fst (onPacket (oracle_env (Some (curl_rule ''curl-session'' Deny Once), True) appending_Add) 7 empty_world) = Returned
      \<and> verdicts 7 (trace (snd (onPacket (oracle_env (Some (curl_rule ''curl-session'' Deny Once), True) appending_Add) 7 empty_world))) = [NF_DROP]
      \<and> verdicts 8 (trace (snd (onPacket (oracle_env (Some (curl_rule ''curl-session'' Deny Once), True) appending_Add) 7 empty_world))) = [])"
  using exactly_one_verdict [of dns_env 7 empty_world
          "fst (onPacket dns_env 7 empty_world)" "snd (onPacket dns_env 7 empty_world)"]
        exactly_one_verdict [of unparsable_env 7 empty_world
          "fst (onPacket unparsable_env 7 empty_world)"
          "snd (onPacket unparsable_env 7 empty_world)"]
        exactly_one_verdict [of "oracle_env (Some (curl_rule ''curl-session'' Deny Once), True) appending_Add"
          7 empty_world
          "fst (onPacket (oracle_env (Some (curl_rule ''curl-session'' Deny Once), True) appending_Add) 7 empty_world)"
          "snd (onPacket (oracle_env (Some (curl_rule ''curl-session'' Deny Once), True) appending_Add) 7 empty_world)"]
  by (simp add: running examples asked_nil_def)

text \<open>
  Over a worker's whole run: when the worker is back at its \<open>select\<close> after the packets
  \<open>pkts\<close>, each packet has got as many verdicts as the times it was received.
\<close>

lemma onPacket_verdicts:
  assumes "onPacket env p w = (Returned, w')"
  shows "length (verdicts q (trace w')) = length (verdicts q (trace w)) + (if q = p then 1 else 0)"
  using assms
  by (auto simp: onPacket_def Let_def trace_emit store_emit verdicts_append
        verdicts_Nil verdicts_Cons verdicts_set_verdict verdicts_save_rule
      split: option.splits prod.splits if_splits)

lemma worker_loop_verdicts:
  "worker_loop env pkts w = (Returned, w') \<Longrightarrow>
     length (verdicts q (trace w')) = length (verdicts q (trace w)) + count_list pkts q"
proof (induction pkts arbitrary: w)
  case Nil
  then show ?case by simp
next
  case (Cons pkt pkts)
  obtain out w1 where step: "onPacket env pkt w = (out, w1)"
    by (cases "onPacket env pkt w")
  with Cons.prems have ret: "out = Returned" and rest: "worker_loop env pkts w1 = (Returned, w')"
    by (auto split: outcome.splits)
  from step ret have "length (verdicts q (trace w1)) =
      length (verdicts q (trace w)) + (if q = pkt then 1 else 0)"
    by (simp add: onPacket_verdicts)
  moreover from Cons.IH [OF rest] have "length (verdicts q (trace w')) =
      length (verdicts q (trace w1)) + count_list pkts q" .
  ultimately show ?case by simp
qed

lemma worker_verdicts:
  "worker env n pkts w = (Returned, w') \<Longrightarrow>
     length (verdicts q (trace w')) = length (verdicts q (trace w)) + count_list pkts q"
  by (simp add: worker_def worker_loop_verdicts [of env pkts _ w' q] trace_emit verdicts_append
        verdicts_Nil verdicts_Cons)

subsection \<open>The fast path and the ignored packets\<close>

text \<open>
  C6. A packet for which \<open>dns.TrackAnswers\<close> answers true gets \<open>NF_ACCEPT\<close> at once and
  is counted by \<open>stats.OnDNSResponse\<close>; nothing else happens: no connection is parsed, no
  rule is searched, the client is not asked, the rule store is left as it was.
\<close>

theorem dns_fast_path:
  assumes "dns_TrackAnswers env p" and "onPacket env p w = (out, w')"
  shows "out = Returned
       \<and> trace w' = trace w @ [TrackAnswers_call p, SetVerdict p NF_ACCEPT, OnDNSResponse]
       \<and> verdicts p (trace w') = verdicts p (trace w) @ [NF_ACCEPT]
       \<and> counted (trace w') = counted (trace w) @ [OnDNSResponse]
       \<and> parses (trace w') = parses (trace w)
       \<and> matches (trace w') = matches (trace w)
       \<and> asks (trace w') = asks (trace w)
       \<and> adds (trace w') = adds (trace w)
       \<and> store w' = store w"
  using assms by (auto simp: onPacket_dns reading)

theorem dns_fast_path_witness:
  "dns_TrackAnswers dns_env 7
   \<and> onPacket dns_env 7 empty_world =
       (Returned,
        \<lparr>store = ([], []),
         trace = [TrackAnswers_call 7, SetVerdict 7 NF_ACCEPT, OnDNSResponse]\<rparr>)
   \<and> verdicts 7 (trace (snd (onPacket dns_env 7 empty_world))) = [NF_ACCEPT]
   \<and> counted (trace (snd (onPacket dns_env 7 empty_world))) = [OnDNSResponse]
   \<and> parses (trace (snd (onPacket dns_env 7 empty_world))) = []
   \<and> asks (trace (snd (onPacket dns_env 7 empty_world))) = []"
  using dns_fast_path [of dns_env 7 empty_world
          "fst (onPacket dns_env 7 empty_world)" "snd (onPacket dns_env 7 empty_world)"]
  by (simp add: running examples)

text \<open>
  C7. A packet that is no DNS answer and for which \<open>conman.Parse\<close> returns nil gets
  \<open>NF_ACCEPT\<close> and is counted by \<open>stats.OnIgnored\<close>; no rule is searched, the client is
  not asked, and the rule store is left as it was.
\<close>

theorem unparsable_is_ignored:
  assumes "\<not> dns_TrackAnswers env p" and "conman_Parse env p = None"
    and "onPacket env p w = (out, w')"
  shows "out = Returned
       \<and> trace w' = trace w @ [TrackAnswers_call p, Parse_call p, SetVerdict p NF_ACCEPT, OnIgnored]
       \<and> verdicts p (trace w') = verdicts p (trace w) @ [NF_ACCEPT]
       \<and> counted (trace w') = counted (trace w) @ [OnIgnored]
       \<and> matches (trace w') = matches (trace w)
       \<and> asks (trace w') = asks (trace w)
       \<and> adds (trace w') = adds (trace w)
       \<and> store w' = store w"
  using assms by (auto simp: onPacket_ignored reading)

theorem unparsable_is_ignored_witness:
  "\<not> dns_TrackAnswers unparsable_env 7 \<and> conman_Parse unparsable_env 7 = None
   \<and> onPacket unparsable_env 7 empty_world =
       (Returned,
        \<lparr>store = ([], []),
         trace = [TrackAnswers_call 7, Parse_call 7, SetVerdict 7 NF_ACCEPT, OnIgnored]\<rparr>)
   \<and> verdicts 7 (trace (snd (onPacket unparsable_env 7 empty_world))) = [NF_ACCEPT]
   \<and> counted (trace (snd (onPacket unparsable_env 7 empty_world))) = [OnIgnored]
   \<and> matches (trace (snd (onPacket unparsable_env 7 empty_world))) = []
   \<and> asks (trace (snd (onPacket unparsable_env 7 empty_world))) = []
   \<and> adds (trace (snd (onPacket unparsable_env 7 empty_world))) = []"
  using unparsable_is_ignored [of unparsable_env 7 empty_world
          "fst (onPacket unparsable_env 7 empty_world)"
          "snd (onPacket unparsable_env 7 empty_world)"]
  by (simp add: running examples)

subsection \<open>What an answer of the client does to the rule store\<close>

text \<open>
  C2. When no rule of the store matches and the client answers, connected, with a rule:
  a rule of duration \<open>Once\<close> leaves the store alone (\<open>rules.Add\<close> is not called); a rule
  of duration \<open>Restart\<close> is handed to \<open>rules.Add\<close> once with \<open>saveToDisk\<close> false, one of
  duration \<open>Always\<close> once with \<open>saveToDisk\<close> true, and the store is the one that call
  leaves.
\<close>

theorem duration_decides_saving:
  assumes "\<not> dns_TrackAnswers env p" and "conman_Parse env p = Some con"
    and "rules_FindFirstMatch env (store w) con = None"
    and "uiClient_Ask env con = (Some r, True)"
    and "onPacket env p w = (out, w')"
  shows "(Duration r = Once \<longrightarrow> adds (trace w') = adds (trace w) \<and> store w' = store w)
       \<and> (Duration r = Restart \<longrightarrow>
            adds (trace w') = adds (trace w) @ [(r, False)]
          \<and> store w' = snd (rules_Add env (store w) r False))
       \<and> (Duration r = Always \<longrightarrow>
            adds (trace w') = adds (trace w) @ [(r, True)]
          \<and> store w' = snd (rules_Add env (store w) r True))"
  using assms
  by (auto simp: onPacket_connected reading adds_set_verdict store_set_verdict
        adds_save_rule store_save_rule)


theorem duration_decides_saving_witness:
  "(\<not> dns_TrackAnswers (answering Allow Once True) 7
      \<and> conman_Parse (answering Allow Once True) 7 = Some curl_con
      \<and> rules_FindFirstMatch (answering Allow Once True) (store empty_world) curl_con = None
      \<and> uiClient_Ask (answering Allow Once True) curl_con
          = (Some (curl_rule ''curl-session'' Allow Once), True)
      \<and> adds (trace (snd (onPacket (answering Allow Once True) 7 empty_world))) = []
      \<and> store (snd (onPacket (answering Allow Once True) 7 empty_world)) = ([], []))
   \<and> (uiClient_Ask (answering Allow Restart True) curl_con
          = (Some (curl_rule ''curl-session'' Allow Restart), True)
      \<and> adds (trace (snd (onPacket (answering Allow Restart True) 7 empty_world)))
          = [(curl_rule ''curl-session'' Allow Restart, False)]
      \<and> store (snd (onPacket (answering Allow Restart True) 7 empty_world))
          = ([curl_rule ''curl-session'' Allow Restart], []))
   \<and> (uiClient_Ask (answering Allow Always True) curl_con
          = (Some (curl_rule ''curl-session'' Allow Always), True)
      \<and> adds (trace (snd (onPacket (answering Allow Always True) 7 empty_world)))
          = [(curl_rule ''curl-session'' Allow Always, True)]
      \<and> store (snd (onPacket (answering Allow Always True) 7 empty_world))
          = ([curl_rule ''curl-session'' Allow Always], [curl_rule ''curl-session'' Allow Always]))"
  using duration_decides_saving [of "answering Allow Once True" 7 curl_con empty_world
          "curl_rule ''curl-session'' Allow Once"
          "fst (onPacket (answering Allow Once True) 7 empty_world)"
          "snd (onPacket (answering Allow Once True) 7 empty_world)"]
        duration_decides_saving [of "answering Allow Restart True" 7 curl_con empty_world
          "curl_rule ''curl-session'' Allow Restart"
          "fst (onPacket (answering Allow Restart True) 7 empty_world)"
          "snd (onPacket (answering Allow Restart True) 7 empty_world)"]
        duration_decides_saving [of "answering Allow Always True" 7 curl_con empty_world
          "curl_rule ''curl-session'' Allow Always"
          "fst (onPacket (answering Allow Always True) 7 empty_world)"
          "snd (onPacket (answering Allow Always True) 7 empty_world)"]
  by (simp add: running examples)

text \<open>
  C3. When no rule of the store matches and the client answers, not connected, with a
  rule: \<open>rules.Add\<close> is not called and the store is left as it was, whatever the duration
  of the rule; the action of the rule gives the verdict, \<open>NF_ACCEPT\<close> for \<open>Allow\<close> and
  \<open>NF_DROP\<close> for anything else.
\<close>

theorem unreachable_never_saves:
  assumes "\<not> dns_TrackAnswers env p" and "conman_Parse env p = Some con"
    and "rules_FindFirstMatch env (store w) con = None"
    and "uiClient_Ask env con = (Some r, False)"
    and "onPacket env p w = (out, w')"
  shows "out = Returned
       \<and> adds (trace w') = adds (trace w)
       \<and> store w' = store w
       \<and> verdicts p (trace w') =
           verdicts p (trace w) @ [if Action r = Allow then NF_ACCEPT else NF_DROP]"
  using assms
  by (auto simp: onPacket_unreachable reading adds_set_verdict store_set_verdict
        verdicts_set_verdict)

theorem unreachable_never_saves_witness:
  "\<not> dns_TrackAnswers (answering Deny Always False) 7
   \<and> conman_Parse (answering Deny Always False) 7 = Some curl_con
   \<and> rules_FindFirstMatch (answering Deny Always False) (store empty_world) curl_con = None
   \<and> uiClient_Ask (answering Deny Always False) curl_con
       = (Some (curl_rule ''curl-session'' Deny Always), False)
   \<and> fst (onPacket (answering Deny Always False) 7 empty_world) = Returned
   \<and> adds (trace (snd (onPacket (answering Deny Always False) 7 empty_world))) = []
   \<and> store (snd (onPacket (answering Deny Always False) 7 empty_world)) = ([], [])
   \<and> verdicts 7 (trace (snd (onPacket (answering Deny Always False) 7 empty_world))) = [NF_DROP]
   \<and> verdicts 7 (trace (snd (onPacket (answering Allow Restart False) 7 empty_world))) = [NF_ACCEPT]
   \<and> store (snd (onPacket (answering Allow Restart False) 7 empty_world)) = ([], [])"
  using unreachable_never_saves [of "answering Deny Always False" 7 curl_con empty_world
          "curl_rule ''curl-session'' Deny Always"
          "fst (onPacket (answering Deny Always False) 7 empty_world)"
          "snd (onPacket (answering Deny Always False) 7 empty_world)"]
        unreachable_never_saves [of "answering Allow Restart False" 7 curl_con empty_world
          "curl_rule ''curl-session'' Allow Restart"
          "fst (onPacket (answering Allow Restart False) 7 empty_world)"
          "snd (onPacket (answering Allow Restart False) 7 empty_world)"]
  by (simp add: running examples)

text \<open>
  C8. When the client answers, connected, with a rule of duration \<open>Restart\<close> or
  \<open>Always\<close> and \<open>rules.Add\<close> hands back an error, the error is logged (adding for
  \<open>Restart\<close>, saving for \<open>Always\<close>), no confirmation is logged, and the run goes on to
  the verdict: \<open>NF_ACCEPT\<close> when the action of the rule is \<open>Allow\<close>, \<open>NF_DROP\<close> for
  anything else.
\<close>

theorem failed_add_keeps_verdict:
  assumes "\<not> dns_TrackAnswers env p" and "conman_Parse env p = Some con"
    and "rules_FindFirstMatch env (store w) con = None"
    and "uiClient_Ask env con = (Some r, True)"
    and "Duration r = Restart \<or> Duration r = Always"
    and "fst (rules_Add env (store w) r (Duration r = Always)) = Some err"
    and "onPacket env p w = (out, w')"
  shows "out = Returned
       \<and> logged ERROR (trace w') =
           logged ERROR (trace w)
           @ [(if Duration r = Restart then ''Error while adding rule: %s''
               else ''Error while saving rule: %s'', [ErrorV err])]
       \<and> logged IMPORTANT (trace w') = logged IMPORTANT (trace w)
       \<and> verdicts p (trace w') =
           verdicts p (trace w) @ [if Action r = Allow then NF_ACCEPT else NF_DROP]"
  using assms
  by (auto simp: onPacket_connected reading verdicts_set_verdict verdicts_save_rule
        logged_set_verdict errors_save_rule confirmations_save_rule)

theorem failed_add_keeps_verdict_witness:
  "(\<not> dns_TrackAnswers (answering_unsaved Allow Always) 7
      \<and> conman_Parse (answering_unsaved Allow Always) 7 = Some curl_con
      \<and> rules_FindFirstMatch (answering_unsaved Allow Always) (store empty_world) curl_con = None
      \<and> uiClient_Ask (answering_unsaved Allow Always) curl_con
          = (Some (curl_rule ''curl-session'' Allow Always), True)
      \<and> fst (rules_Add (answering_unsaved Allow Always) (store empty_world)
               (curl_rule ''curl-session'' Allow Always) True) = Some ''read-only file system''
      \<and> fst (onPacket (answering_unsaved Allow Always) 7 empty_world) = Returned
      \<and> logged ERROR (trace (snd (onPacket (answering_unsaved Allow Always) 7 empty_world)))
          = [(''Error while saving rule: %s'', [ErrorV ''read-only file system''])]
      \<and> logged IMPORTANT (trace (snd (onPacket (answering_unsaved Allow Always) 7 empty_world))) = []
      \<and> verdicts 7 (trace (snd (onPacket (answering_unsaved Allow Always) 7 empty_world)))
          = [NF_ACCEPT])
   \<and> (logged ERROR (trace (snd (onPacket (answering_unsaved Deny Restart) 7 empty_world)))
          = [(''Error while adding rule: %s'', [ErrorV ''read-only file system''])]
      \<and> verdicts 7 (trace (snd (onPacket (answering_unsaved Deny Restart) 7 empty_world)))
          = [NF_DROP])"
  using failed_add_keeps_verdict [of "answering_unsaved Allow Always" 7 curl_con empty_world
          "curl_rule ''curl-session'' Allow Always" "''read-only file system''"
          "fst (onPacket (answering_unsaved Allow Always) 7 empty_world)"
          "snd (onPacket (answering_unsaved Allow Always) 7 empty_world)"]
        failed_add_keeps_verdict [of "answering_unsaved Deny Restart" 7 curl_con empty_world
          "curl_rule ''curl-session'' Deny Restart" "''read-only file system''"
          "fst (onPacket (answering_unsaved Deny Restart) 7 empty_world)"
          "snd (onPacket (answering_unsaved Deny Restart) 7 empty_world)"]
  by (simp add: running examples)

subsection \<open>A nil rule from the client\<close>

text \<open>
  C10. When no rule of the store matches and \<open>uiClient.Ask\<close> hands back a nil rule,
  \<open>onPacket\<close> panics on \<open>r.Action\<close> (line 122 when the client said it was connected,
  line 156 when it did not) before \<open>SetVerdict\<close> has been called on any packet, and with
  the rule store as it was. On every other run \<open>onPacket\<close> returns with one verdict more
  on its packet: one verdict for each packet holds exactly when \<open>Ask\<close>, if reached, hands
  back a rule.
\<close>

theorem nil_rule_panics_before_verdict:
  assumes "onPacket env p w = (out, w')"
  shows "(asked_nil env p w \<longrightarrow>
            (out = NilDereference ''r.Action'' 122 \<or> out = NilDereference ''r.Action'' 156)
          \<and> (\<forall>con. conman_Parse env p = Some con \<longrightarrow>
                out = NilDereference ''r.Action'' (if snd (uiClient_Ask env con) then 122 else 156))
          \<and> (\<forall>q. verdicts q (trace w') = verdicts q (trace w))
          \<and> adds (trace w') = adds (trace w)
          \<and> store w' = store w)
       \<and> (\<not> asked_nil env p w \<longrightarrow>
            out = Returned
          \<and> length (verdicts p (trace w')) = Suc (length (verdicts p (trace w))))"
  using assms
  by (auto simp: onPacket_def asked_nil_def Let_def reading verdicts_set_verdict
        verdicts_save_rule adds_set_verdict adds_save_rule store_set_verdict store_save_rule
      split: option.splits prod.splits if_splits)

theorem nil_rule_panics_before_verdict_witness:
  "(asked_nil (oracle_env (None, True) appending_Add) 7 empty_world
      \<and> conman_Parse (oracle_env (None, True) appending_Add) 7 = Some curl_con
      \<and> onPacket (oracle_env (None, True) appending_Add) 7 empty_world =
          (NilDereference ''r.Action'' 122,
           \<lparr>store = ([], []),
            trace = [TrackAnswers_call 7, Parse_call 7, FindFirstMatch_call curl_con,
                     Ask_call curl_con]\<rparr>)
      \<and> verdicts 7 (trace (snd (onPacket (oracle_env (None, True) appending_Add) 7 empty_world))) = [])
   \<and> (asked_nil (oracle_env (None, False) appending_Add) 7 empty_world
      \<and> onPacket (oracle_env (None, False) appending_Add) 7 empty_world =
          (NilDereference ''r.Action'' 156,
           \<lparr>store = ([], []),
            trace = [TrackAnswers_call 7, Parse_call 7, FindFirstMatch_call curl_con,
                     Ask_call curl_con, OnConnectionEvent curl_con None True]\<rparr>)
      \<and> verdicts 7 (trace (snd (onPacket (oracle_env (None, False) appending_Add) 7 empty_world))) = [])
   \<and> (\<not> asked_nil (answering Allow Once True) 7 empty_world
      \<and> fst (onPacket (answering Allow Once True) 7 empty_world) = Returned
      \<and> verdicts 7 (trace (snd (onPacket (answering Allow Once True) 7 empty_world))) = [NF_ACCEPT])"
  using nil_rule_panics_before_verdict [of "oracle_env (None, True) appending_Add" 7 empty_world
          "fst (onPacket (oracle_env (None, True) appending_Add) 7 empty_world)"
          "snd (onPacket (oracle_env (None, True) appending_Add) 7 empty_world)"]
        nil_rule_panics_before_verdict [of "oracle_env (None, False) appending_Add" 7 empty_world
          "fst (onPacket (oracle_env (None, False) appending_Add) 7 empty_world)"
          "snd (onPacket (oracle_env (None, False) appending_Add) 7 empty_world)"]
        nil_rule_panics_before_verdict [of "answering Allow Once True" 7 empty_world
          "fst (onPacket (answering Allow Once True) 7 empty_world)"
          "snd (onPacket (answering Allow Once True) 7 empty_world)"]
  by (simp add: running examples asked_nil_def)

subsection \<open>The confirmation of a saved rule\<close>

text \<open>
  C9, as the code has it. When the client answers with a rule, a confirmation is logged
  exactly when the client was connected, the duration of the rule is \<open>Restart\<close> or
  \<open>Always\<close>, and \<open>rules.Add\<close> handed back no error. The line is
  \<open>%s new rule: %s if %s\<close> with three arguments: \<open>Added\<close> (for \<open>Restart\<close>) or \<open>Saved\<close>
  (for \<open>Always\<close>), the action of the rule (green for \<open>Allow\<close>, red otherwise), and the
  rendering of the operator of the rule. No confirmation is logged when \<open>Add\<close> fails, when
  the duration is \<open>Once\<close>, or when the client was not connected. The name of the rule is
  not among the arguments.
\<close>

theorem confirmation_after_add:
  assumes "\<not> dns_TrackAnswers env p" and "conman_Parse env p = Some con"
    and "rules_FindFirstMatch env (store w) con = None"
    and "uiClient_Ask env con = (Some r, connected)"
    and "onPacket env p w = (out, w')"
  shows "logged IMPORTANT (trace w') =
           logged IMPORTANT (trace w)
           @ (if connected \<and> (Duration r = Restart \<or> Duration r = Always)
                 \<and> fst (rules_Add env (store w) r (Duration r = Always)) = None
              then [(''%s new rule: %s if %s'',
                     [Str (if Duration r = Restart then ''Added'' else ''Saved''),
                      (if Action r = Allow then Green (ActionStr (Action r))
                       else Red (ActionStr (Action r))),
                      OperatorString (Operator r)])]
              else [])"
proof (cases connected)
  case True
  with assms have "onPacket env p w =
    (Returned,
     set_verdict p con r
       (emit (OnConnectionEvent con (Some r) True)
          (save_rule env r
             (w\<lparr>trace := trace w @ [TrackAnswers_call p, Parse_call p,
                                     FindFirstMatch_call con, Ask_call con]\<rparr>))))"
    by (simp add: onPacket_connected)
  with assms(5) True show ?thesis
    by (auto simp: reading logged_set_verdict confirmations_save_rule)
next
  case False
  with assms have "onPacket env p w =
    (Returned,
     set_verdict p con r
       (w\<lparr>trace := trace w @ [TrackAnswers_call p, Parse_call p, FindFirstMatch_call con,
                               Ask_call con, OnConnectionEvent con (Some r) True]\<rparr>))"
    by (simp add: onPacket_unreachable)
  with assms(5) False show ?thesis
    by (auto simp: reading logged_set_verdict)
qed

theorem confirmation_after_add_witness:
  "(\<not> dns_TrackAnswers (answering Allow Restart True) 7
      \<and> conman_Parse (answering Allow Restart True) 7 = Some curl_con
      \<and> rules_FindFirstMatch (answering Allow Restart True) (store empty_world) curl_con = None
      \<and> uiClient_Ask (answering Allow Restart True) curl_con
          = (Some (curl_rule ''curl-session'' Allow Restart), True)
      \<and> logged IMPORTANT (trace (snd (onPacket (answering Allow Restart True) 7 empty_world)))
          = [(''%s new rule: %s if %s'',
              [Str ''Added'', Green (ActionStr Allow), OperatorString curl_operator])])
   \<and> logged IMPORTANT (trace (snd (onPacket (answering Deny Always True) 7 empty_world)))
          = [(''%s new rule: %s if %s'',
              [Str ''Saved'', Red (ActionStr Deny), OperatorString curl_operator])]
   \<and> logged IMPORTANT (trace (snd (onPacket (answering Allow Once True) 7 empty_world))) = []
   \<and> logged IMPORTANT (trace (snd (onPacket (answering Allow Always False) 7 empty_world))) = []
   \<and> logged IMPORTANT (trace (snd (onPacket (answering_unsaved Allow Always) 7 empty_world))) = []"
  using confirmation_after_add [of "answering Allow Restart True" 7 curl_con empty_world
          "curl_rule ''curl-session'' Allow Restart" True
          "fst (onPacket (answering Allow Restart True) 7 empty_world)"
          "snd (onPacket (answering Allow Restart True) 7 empty_world)"]
        confirmation_after_add [of "answering Deny Always True" 7 curl_con empty_world
          "curl_rule ''curl-session'' Deny Always" True
          "fst (onPacket (answering Deny Always True) 7 empty_world)"
          "snd (onPacket (answering Deny Always True) 7 empty_world)"]
        confirmation_after_add [of "answering Allow Once True" 7 curl_con empty_world
          "curl_rule ''curl-session'' Allow Once" True
          "fst (onPacket (answering Allow Once True) 7 empty_world)"
          "snd (onPacket (answering Allow Once True) 7 empty_world)"]
        confirmation_after_add [of "answering Allow Always False" 7 curl_con empty_world
          "curl_rule ''curl-session'' Allow Always" False
          "fst (onPacket (answering Allow Always False) 7 empty_world)"
          "snd (onPacket (answering Allow Always False) 7 empty_world)"]
        confirmation_after_add [of "answering_unsaved Allow Always" 7 curl_con empty_world
          "curl_rule ''curl-session'' Allow Always" True
          "fst (onPacket (answering_unsaved Allow Always) 7 empty_world)"
          "snd (onPacket (answering_unsaved Allow Always) 7 empty_world)"]
  by (simp add: running examples)

text \<open>
  C9, as the claim has it, fails on the name: the rule \<open>curl-session\<close> and the same rule
  under the name \<open>another-name\<close> are confirmed by the very same line, whose arguments are
  \<open>Added\<close>, the action and the operator.
\<close>

theorem confirmation_has_no_rule_name:
  "logged IMPORTANT
     (trace (snd (onPacket (oracle_env (Some (curl_rule ''curl-session'' Allow Restart), True)
                              appending_Add) 7 empty_world)))
     = [(''%s new rule: %s if %s'',
         [Str ''Added'', Green (ActionStr Allow), OperatorString curl_operator])]
   \<and> logged IMPORTANT
     (trace (snd (onPacket (oracle_env (Some (curl_rule ''another-name'' Allow Restart), True)
                              appending_Add) 7 empty_world)))
     = logged IMPORTANT
     (trace (snd (onPacket (oracle_env (Some (curl_rule ''curl-session'' Allow Restart), True)
                              appending_Add) 7 empty_world)))
   \<and> Name (curl_rule ''another-name'' Allow Restart) \<noteq> Name (curl_rule ''curl-session'' Allow Restart)"
  by (simp add: running examples)

subsection \<open>Teardown\<close>

text \<open>
  C4, as the code has it. On a signal the listener logs it, runs \<open>doCleanup\<close> and exits
  with status 0. \<open>doCleanup\<close> retracts the three hooks in this order: the queueing of DNS
  responses first, the queueing of connections second, the rejection of marked packets
  third.
\<close>

theorem teardown_order:
  "signal_listener cfg sig =
     (Exited 0,
      [LogRaw [CHR 0x0A], Log IMPORTANT ''Got signal: %v'' [SignalV sig],
       Log INFO ''Cleaning up ...'' [],
       QueueDNSResponses_call False (queueNum cfg),
       QueueConnections_call False (queueNum cfg),
       RejectMarked_call False,
       Exit 0])
   \<and> precedes (QueueDNSResponses_call False (queueNum cfg))
        (QueueConnections_call False (queueNum cfg)) (snd (signal_listener cfg sig))
   \<and> precedes (QueueConnections_call False (queueNum cfg))
        (RejectMarked_call False) (snd (signal_listener cfg sig))
   \<and> precedes (RejectMarked_call False) (Exit 0) (snd (signal_listener cfg sig))"
  by (simp add: signal_listener_def doCleanup_def)

text \<open>
  C4, as the claim has it, puts the queueing of connections first. In the run on
  \<open>SIGTERM\<close> with the default flags its retraction does not come before that of the
  queueing of DNS responses; it comes after it.
\<close>

theorem teardown_connections_first_fails:
  "\<not> precedes (QueueConnections_call False 0) (QueueDNSResponses_call False 0)
       (snd (signal_listener default_config SIGTERM :: ending \<times> nat event list))
   \<and> precedes (QueueDNSResponses_call False 0) (QueueConnections_call False 0)
       (snd (signal_listener default_config SIGTERM :: ending \<times> nat event list))"
  by (simp add: signal_listener_def doCleanup_def default_config_def)

subsection \<open>Startup\<close>

lemma forwards_setupSignals: "forwards setupSignals = []"
  by (simp add: setupSignals_def forwards_Nil forwards_Cons)

lemma forwards_Go_worker: "forwards (map Go_worker is) = []"
  by (induction "is") (simp_all add: forwards_Nil forwards_Cons)

lemma forwards_setupWorkers: "forwards (setupWorkers cfg) = []"
  by (simp add: setupWorkers_def forwards_append forwards_Nil forwards_Cons forwards_Go_worker)

lemma forwards_main_logging: "main_logging cfg sys = Inr tr0 \<Longrightarrow> forwards tr0 = []"
  by (auto simp: main_logging_def Let_def forwards_append forwards_Nil forwards_Cons
      split: if_splits option.splits)

lemma started_append: "started (xs @ ys) = started xs @ started ys"
  by (simp add: started_def map_filter_append)

lemma started_Nil: "started [] = []"
  by (simp add: started_def)

lemma started_Cons:
  "started (e # es) = (case e of Go_worker i \<Rightarrow> [i] | _ \<Rightarrow> []) @ started es"
  by (simp add: started_def split: event.splits)

lemma started_Go_worker: "started (map Go_worker is) = is"
  by (induction "is") (simp_all add: started_Nil started_Cons)

lemma started_map_Forward: "started (map Forward ps) = []"
  by (induction ps) (simp_all add: started_Nil started_Cons)

lemma started_setupSignals: "started setupSignals = []"
  by (simp add: setupSignals_def started_Nil started_Cons)

lemma started_setupWorkers: "started (setupWorkers cfg) = [0 .. workers cfg - 1]"
  by (simp add: setupWorkers_def started_append started_Nil started_Cons started_Go_worker)

lemma started_main_logging: "main_logging cfg sys = Inr tr0 \<Longrightarrow> started tr0 = []"
  by (auto simp: main_logging_def Let_def started_append started_Nil started_Cons
      split: if_splits option.splits)

lemma hook_calls_append: "hook_calls (xs @ ys) = hook_calls xs @ hook_calls ys"
  by (simp add: hook_calls_def)

lemma hook_calls_Nil: "hook_calls [] = []"
  by (simp add: hook_calls_def)

lemma hook_calls_Cons:
  "hook_calls (e # es) =
     (case e of QueueDNSResponses_call b n \<Rightarrow> [e] | QueueConnections_call b n \<Rightarrow> [e]
              | RejectMarked_call b \<Rightarrow> [e] | _ \<Rightarrow> []) @ hook_calls es"
  by (simp add: hook_calls_def split: event.splits)

lemma hook_calls_Go_worker: "hook_calls (map Go_worker is) = []"
  by (induction "is") (simp_all add: hook_calls_Nil hook_calls_Cons)

lemma hook_calls_map_Forward: "hook_calls (map Forward ps) = []"
  by (induction ps) (simp_all add: hook_calls_Nil hook_calls_Cons)

lemma hook_calls_setupSignals: "hook_calls setupSignals = []"
  by (simp add: setupSignals_def hook_calls_Nil hook_calls_Cons)

lemma hook_calls_setupWorkers: "hook_calls (setupWorkers cfg) = []"
  by (simp add: setupWorkers_def hook_calls_append hook_calls_Nil hook_calls_Cons
        hook_calls_Go_worker)

lemma hook_calls_main_logging: "main_logging cfg sys = Inr tr0 \<Longrightarrow> hook_calls tr0 = []"
  by (auto simp: main_logging_def Let_def hook_calls_append hook_calls_Nil hook_calls_Cons
      split: if_splits option.splits)

lemmas startup_reading =
  forwards_append forwards_Nil forwards_Cons forwards_setupSignals forwards_setupWorkers
  forwards_main_logging forwards_map_Forward
  started_append started_Nil started_Cons started_setupSignals started_setupWorkers
  started_main_logging started_map_Forward
  hook_calls_append hook_calls_Nil hook_calls_Cons hook_calls_setupSignals
  hook_calls_setupWorkers hook_calls_main_logging hook_calls_map_Forward

text \<open>Where \<open>main\<close> can leave, one lemma for each: what has run by then, and nothing more.\<close>

lemma main_open_fails:
  assumes "main cfg sys pkts = (e, tr)"
    and "logFile cfg \<noteq> []" and "os_OpenFile sys (logFile cfg) = Some err"
  shows "e = Panic err
       \<and> tr = [SetOutput_Discard, Flag_Parse, Set_MinLevel (if debug cfg then DEBUG else INFO),
               OpenFile_call (logFile cfg)]
       \<and> started tr = [] \<and> hook_calls tr = []"
  using assms
  by (auto simp: main_def main_logging_def Let_def started_Nil started_Cons
        hook_calls_Nil hook_calls_Cons)

lemma main_expand_fails:
  assumes "main cfg sys pkts = (e, tr)"
    and "main_logging cfg sys = Inr tr0"
    and "core_ExpandPath sys (rulesPath cfg) = Inl err"
  shows "e = Exited 1
       \<and> tr = tr0 @ [ExpandPath_call (rulesPath cfg), Log FATAL ''%s'' [ErrorV err], Exit 1]
       \<and> started tr = [] \<and> hook_calls tr = []"
  using assms by (auto simp: main_def log_Fatal_def Let_def startup_reading)

lemma main_load_fails:
  assumes "main cfg sys pkts = (e, tr)"
    and "main_logging cfg sys = Inr tr0"
    and "core_ExpandPath sys (rulesPath cfg) = Inr path"
    and "rules_Load sys path = Some err"
  shows "e = Exited 1
       \<and> tr = tr0 @ [ExpandPath_call (rulesPath cfg)] @ setupSignals
              @ [Log INFO ''Loading rules from %s ...'' [Str path], Load_call path,
                 Log FATAL ''%s'' [ErrorV err], Exit 1]
       \<and> started tr = [] \<and> hook_calls tr = []"
  using assms by (auto simp: main_def log_Fatal_def Let_def startup_reading)

lemma main_queue_fails:
  assumes "main cfg sys pkts = (e, tr)"
    and "main_logging cfg sys = Inr tr0"
    and "core_ExpandPath sys (rulesPath cfg) = Inr path"
    and "rules_Load sys path = None"
    and "netfilter_NewNFQueue sys (word_of_int (queueNum cfg)) = Some err"
  shows "e = Exited 1
       \<and> tr = tr0 @ [ExpandPath_call (rulesPath cfg)] @ setupSignals
              @ [Log INFO ''Loading rules from %s ...'' [Str path], Load_call path,
                 NewClient_call (uiSocket cfg)]
              @ setupWorkers cfg
              @ [NewNFQueue_call (word_of_int (queueNum cfg)) 4096,
                 Log FATAL ''Error while creating queue #%d: %s''
                   [Num (queueNum cfg), ErrorV err],
                 Exit 1]
       \<and> started tr = [0 .. workers cfg - 1] \<and> hook_calls tr = []"
  using assms by (auto simp: main_def log_Fatal_def Let_def startup_reading)

lemma main_dns_hook_fails:
  assumes "main cfg sys pkts = (e, tr)"
    and "main_logging cfg sys = Inr tr0"
    and "core_ExpandPath sys (rulesPath cfg) = Inr path"
    and "rules_Load sys path = None"
    and "netfilter_NewNFQueue sys (word_of_int (queueNum cfg)) = None"
    and "firewall_QueueDNSResponses sys True (queueNum cfg) = Some err"
  shows "e = Exited 1
       \<and> tr = tr0 @ [ExpandPath_call (rulesPath cfg)] @ setupSignals
              @ [Log INFO ''Loading rules from %s ...'' [Str path], Load_call path,
                 NewClient_call (uiSocket cfg)]
              @ setupWorkers cfg
              @ [NewNFQueue_call (word_of_int (queueNum cfg)) 4096, GetPackets_call,
                 QueueDNSResponses_call True (queueNum cfg),
                 Log FATAL ''Error while running DNS firewall rule: %s'' [ErrorV err],
                 Exit 1]
       \<and> started tr = [0 .. workers cfg - 1]
       \<and> hook_calls tr = [QueueDNSResponses_call True (queueNum cfg)]"
  using assms
  by (auto simp: main_def main_firewall_def log_Fatal_def Let_def startup_reading)

lemma main_connections_hook_fails:
  assumes "main cfg sys pkts = (e, tr)"
    and "main_logging cfg sys = Inr tr0"
    and "core_ExpandPath sys (rulesPath cfg) = Inr path"
    and "rules_Load sys path = None"
    and "netfilter_NewNFQueue sys (word_of_int (queueNum cfg)) = None"
    and "firewall_QueueDNSResponses sys True (queueNum cfg) = None"
    and "firewall_QueueConnections sys True (queueNum cfg) = Some err"
  shows "e = Exited 1
       \<and> tr = tr0 @ [ExpandPath_call (rulesPath cfg)] @ setupSignals
              @ [Log INFO ''Loading rules from %s ...'' [Str path], Load_call path,
                 NewClient_call (uiSocket cfg)]
              @ setupWorkers cfg
              @ [NewNFQueue_call (word_of_int (queueNum cfg)) 4096, GetPackets_call,
                 QueueDNSResponses_call True (queueNum cfg),
                 QueueConnections_call True (queueNum cfg),
                 Log FATAL ''Error while running conntrack firewall rule: %s'' [ErrorV err],
                 Exit 1]
       \<and> started tr = [0 .. workers cfg - 1]
       \<and> hook_calls tr = [QueueDNSResponses_call True (queueNum cfg),
                          QueueConnections_call True (queueNum cfg)]"
  using assms
  by (auto simp: main_def main_firewall_def log_Fatal_def Let_def startup_reading)

lemma main_reject_hook_fails:
  assumes "main cfg sys pkts = (e, tr)"
    and "main_logging cfg sys = Inr tr0"
    and "core_ExpandPath sys (rulesPath cfg) = Inr path"
    and "rules_Load sys path = None"
    and "netfilter_NewNFQueue sys (word_of_int (queueNum cfg)) = None"
    and "firewall_QueueDNSResponses sys True (queueNum cfg) = None"
    and "firewall_QueueConnections sys True (queueNum cfg) = None"
    and "firewall_RejectMarked sys True = Some err"
  shows "e = Exited 1
       \<and> tr = tr0 @ [ExpandPath_call (rulesPath cfg)] @ setupSignals
              @ [Log INFO ''Loading rules from %s ...'' [Str path], Load_call path,
                 NewClient_call (uiSocket cfg)]
              @ setupWorkers cfg
              @ [NewNFQueue_call (word_of_int (queueNum cfg)) 4096, GetPackets_call,
                 QueueDNSResponses_call True (queueNum cfg),
                 QueueConnections_call True (queueNum cfg),
                 RejectMarked_call True,
                 Log FATAL ''Error while running reject firewall rule: %s'' [ErrorV err],
                 Exit 1]
       \<and> started tr = [0 .. workers cfg - 1]
       \<and> hook_calls tr = [QueueDNSResponses_call True (queueNum cfg),
                          QueueConnections_call True (queueNum cfg),
                          RejectMarked_call True]"
  using assms
  by (auto simp: main_def main_firewall_def log_Fatal_def Let_def startup_reading)

lemma main_serving:
  assumes "main cfg sys pkts = (e, tr)"
  shows "(e = Serving \<longleftrightarrow> startup_succeeds cfg sys)
       \<and> (e = Serving \<longrightarrow>
            (\<exists>tr0 path. main_logging cfg sys = Inr tr0
               \<and> core_ExpandPath sys (rulesPath cfg) = Inr path
               \<and> tr = tr0 @ [ExpandPath_call (rulesPath cfg)] @ setupSignals
                      @ [Log INFO ''Loading rules from %s ...'' [Str path], Load_call path,
                         NewClient_call (uiSocket cfg)]
                      @ setupWorkers cfg
                      @ [NewNFQueue_call (word_of_int (queueNum cfg)) 4096, GetPackets_call,
                         QueueDNSResponses_call True (queueNum cfg),
                         QueueConnections_call True (queueNum cfg),
                         RejectMarked_call True,
                         Log INFO ''Running on netfilter queue #%d ...'' [Num (queueNum cfg)]]
                      @ map Forward pkts))
       \<and> (e \<noteq> Serving \<longrightarrow> forwards tr = [] \<and> (e = Exited 1 \<or> (\<exists>err. e = Panic err)))
       \<and> ((\<exists>err. e = Panic err) \<longleftrightarrow>
            logFile cfg \<noteq> [] \<and> os_OpenFile sys (logFile cfg) \<noteq> None)"
  using assms
  by (auto simp: main_def main_firewall_def log_Fatal_def serve_def startup_succeeds_def Let_def
        forwards_append forwards_Nil forwards_Cons forwards_setupSignals forwards_setupWorkers
        forwards_main_logging main_logging_def
      split: sum.splits option.splits if_splits)

text \<open>
  C5, as the code has it. \<open>main\<close> gets to its packet loop exactly when every call that
  can fail succeeds, and then it has run, in this order: the expansion of the rules path,
  the start of the signal listener, the loading of the rules, the creation of the client,
  the start of the workers, the creation of the kernel queue, the installation of the three
  hooks (DNS responses, connections, marked packets), and only then the forwarding of
  packets. When a call fails \<open>main\<close> ends there, with a panic (the log file) or with exit
  status 1 (all the others): what has run is what comes before the failing call in that
  order, then the fatal log line and the exit, and nothing after it. So no packet is ever
  forwarded by a failing run; when the rules cannot be loaded no worker has been started
  and no hook called; when the queue cannot be created the workers have been started and
  no hook called; when a hook fails the workers have been started and the hooks called are
  those up to the failing one.
\<close>

theorem startup_order:
  assumes "main cfg sys pkts = (e, tr)"
  shows "(e = Serving \<longleftrightarrow> startup_succeeds cfg sys)
       \<and> (e = Serving \<longrightarrow>
            (\<exists>tr0 path. main_logging cfg sys = Inr tr0
               \<and> core_ExpandPath sys (rulesPath cfg) = Inr path
               \<and> tr = tr0 @ [ExpandPath_call (rulesPath cfg)] @ setupSignals
                      @ [Log INFO ''Loading rules from %s ...'' [Str path], Load_call path,
                         NewClient_call (uiSocket cfg)]
                      @ setupWorkers cfg
                      @ [NewNFQueue_call (word_of_int (queueNum cfg)) 4096, GetPackets_call,
                         QueueDNSResponses_call True (queueNum cfg),
                         QueueConnections_call True (queueNum cfg),
                         RejectMarked_call True,
                         Log INFO ''Running on netfilter queue #%d ...'' [Num (queueNum cfg)]]
                      @ map Forward pkts))
       \<and> (e \<noteq> Serving \<longrightarrow> forwards tr = [] \<and> (e = Exited 1 \<or> (\<exists>err. e = Panic err)))
       \<and> ((\<exists>err. e = Panic err) \<longleftrightarrow>
            logFile cfg \<noteq> [] \<and> os_OpenFile sys (logFile cfg) \<noteq> None)
       \<and> (e = Serving \<longrightarrow>
            started tr = [0 .. workers cfg - 1]
          \<and> hook_calls tr = [QueueDNSResponses_call True (queueNum cfg),
                             QueueConnections_call True (queueNum cfg),
                             RejectMarked_call True]
          \<and> forwards tr = pkts)
       \<and> (\<forall>err. logFile cfg \<noteq> [] \<and> os_OpenFile sys (logFile cfg) = Some err \<longrightarrow>
            e = Panic err
          \<and> tr = [SetOutput_Discard, Flag_Parse,
                  Set_MinLevel (if debug cfg then DEBUG else INFO), OpenFile_call (logFile cfg)]
          \<and> started tr = [] \<and> hook_calls tr = [])
       \<and> (\<forall>tr0 err. main_logging cfg sys = Inr tr0
            \<and> core_ExpandPath sys (rulesPath cfg) = Inl err \<longrightarrow>
            e = Exited 1
          \<and> tr = tr0 @ [ExpandPath_call (rulesPath cfg), Log FATAL ''%s'' [ErrorV err], Exit 1]
          \<and> started tr = [] \<and> hook_calls tr = [])
       \<and> (\<forall>tr0 path err. main_logging cfg sys = Inr tr0
            \<and> core_ExpandPath sys (rulesPath cfg) = Inr path
            \<and> rules_Load sys path = Some err \<longrightarrow>
            e = Exited 1
          \<and> tr = tr0 @ [ExpandPath_call (rulesPath cfg)] @ setupSignals
                 @ [Log INFO ''Loading rules from %s ...'' [Str path], Load_call path,
                    Log FATAL ''%s'' [ErrorV err], Exit 1]
          \<and> started tr = [] \<and> hook_calls tr = [])
       \<and> (\<forall>tr0 path err. main_logging cfg sys = Inr tr0
            \<and> core_ExpandPath sys (rulesPath cfg) = Inr path
            \<and> rules_Load sys path = None
            \<and> netfilter_NewNFQueue sys (word_of_int (queueNum cfg)) = Some err \<longrightarrow>
            e = Exited 1
          \<and> tr = tr0 @ [ExpandPath_call (rulesPath cfg)] @ setupSignals
                 @ [Log INFO ''Loading rules from %s ...'' [Str path], Load_call path,
                    NewClient_call (uiSocket cfg)]
                 @ setupWorkers cfg
                 @ [NewNFQueue_call (word_of_int (queueNum cfg)) 4096,
                    Log FATAL ''Error while creating queue #%d: %s''
                      [Num (queueNum cfg), ErrorV err],
                    Exit 1]
          \<and> started tr = [0 .. workers cfg - 1] \<and> hook_calls tr = [])
       \<and> (\<forall>tr0 path err. main_logging cfg sys = Inr tr0
            \<and> core_ExpandPath sys (rulesPath cfg) = Inr path
            \<and> rules_Load sys path = None
            \<and> netfilter_NewNFQueue sys (word_of_int (queueNum cfg)) = None
            \<and> firewall_QueueDNSResponses sys True (queueNum cfg) = Some err \<longrightarrow>
            e = Exited 1
          \<and> tr = tr0 @ [ExpandPath_call (rulesPath cfg)] @ setupSignals
                 @ [Log INFO ''Loading rules from %s ...'' [Str path], Load_call path,
                    NewClient_call (uiSocket cfg)]
                 @ setupWorkers cfg
                 @ [NewNFQueue_call (word_of_int (queueNum cfg)) 4096, GetPackets_call,
                    QueueDNSResponses_call True (queueNum cfg),
                    Log FATAL ''Error while running DNS firewall rule: %s'' [ErrorV err],
                    Exit 1]
          \<and> started tr = [0 .. workers cfg - 1]
          \<and> hook_calls tr = [QueueDNSResponses_call True (queueNum cfg)])
       \<and> (\<forall>tr0 path err. main_logging cfg sys = Inr tr0
            \<and> core_ExpandPath sys (rulesPath cfg) = Inr path
            \<and> rules_Load sys path = None
            \<and> netfilter_NewNFQueue sys (word_of_int (queueNum cfg)) = None
            \<and> firewall_QueueDNSResponses sys True (queueNum cfg) = None
            \<and> firewall_QueueConnections sys True (queueNum cfg) = Some err \<longrightarrow>
            e = Exited 1
          \<and> tr = tr0 @ [ExpandPath_call (rulesPath cfg)] @ setupSignals
                 @ [Log INFO ''Loading rules from %s ...'' [Str path], Load_call path,
                    NewClient_call (uiSocket cfg)]
                 @ setupWorkers cfg
                 @ [NewNFQueue_call (word_of_int (queueNum cfg)) 4096, GetPackets_call,
                    QueueDNSResponses_call True (queueNum cfg),
                    QueueConnections_call True (queueNum cfg),
                    Log FATAL ''Error while running conntrack firewall rule: %s'' [ErrorV err],
                    Exit 1]
          \<and> started tr = [0 .. workers cfg - 1]
          \<and> hook_calls tr = [QueueDNSResponses_call True (queueNum cfg),
                             QueueConnections_call True (queueNum cfg)])
       \<and> (\<forall>tr0 path err. main_logging cfg sys = Inr tr0
            \<and> core_ExpandPath sys (rulesPath cfg) = Inr path
            \<and> rules_Load sys path = None
            \<and> netfilter_NewNFQueue sys (word_of_int (queueNum cfg)) = None
            \<and> firewall_QueueDNSResponses sys True (queueNum cfg) = None
            \<and> firewall_QueueConnections sys True (queueNum cfg) = None
            \<and> firewall_RejectMarked sys True = Some err \<longrightarrow>
            e = Exited 1
          \<and> tr = tr0 @ [ExpandPath_call (rulesPath cfg)] @ setupSignals
                 @ [Log INFO ''Loading rules from %s ...'' [Str path], Load_call path,
                    NewClient_call (uiSocket cfg)]
                 @ setupWorkers cfg
                 @ [NewNFQueue_call (word_of_int (queueNum cfg)) 4096, GetPackets_call,
                    QueueDNSResponses_call True (queueNum cfg),
                    QueueConnections_call True (queueNum cfg),
                    RejectMarked_call True,
                    Log FATAL ''Error while running reject firewall rule: %s'' [ErrorV err],
                    Exit 1]
          \<and> started tr = [0 .. workers cfg - 1]
          \<and> hook_calls tr = [QueueDNSResponses_call True (queueNum cfg),
                             QueueConnections_call True (queueNum cfg),
                             RejectMarked_call True])"
  (is "?iff \<and> ?serving \<and> ?failing \<and> ?panic \<and> ?served \<and> ?openf \<and> ?expandf \<and> ?loadf
        \<and> ?queuef \<and> ?dnsf \<and> ?connf \<and> ?rejectf")
proof -
  note run = assms
  have first: "?iff \<and> ?serving \<and> ?failing \<and> ?panic"
    by (rule main_serving [OF run])
  have served: ?served
  proof
    assume "e = Serving"
    with first obtain tr0 path where "main_logging cfg sys = Inr tr0"
      and "tr = tr0 @ [ExpandPath_call (rulesPath cfg)] @ setupSignals
                      @ [Log INFO ''Loading rules from %s ...'' [Str path], Load_call path,
                         NewClient_call (uiSocket cfg)]
                      @ setupWorkers cfg
                      @ [NewNFQueue_call (word_of_int (queueNum cfg)) 4096, GetPackets_call,
                         QueueDNSResponses_call True (queueNum cfg),
                         QueueConnections_call True (queueNum cfg),
                         RejectMarked_call True,
                         Log INFO ''Running on netfilter queue #%d ...'' [Num (queueNum cfg)]]
                      @ map Forward pkts"
      by blast
    then show "started tr = [0 .. workers cfg - 1]
          \<and> hook_calls tr = [QueueDNSResponses_call True (queueNum cfg),
                             QueueConnections_call True (queueNum cfg),
                             RejectMarked_call True]
          \<and> forwards tr = pkts"
      by (simp add: startup_reading)
  qed
  have openf: ?openf
    by (intro allI impI, elim conjE, rule main_open_fails [OF run], assumption+)
  have expandf: ?expandf
    by (intro allI impI, elim conjE, rule main_expand_fails [OF run], assumption+)
  have loadf: ?loadf
    by (intro allI impI, elim conjE, rule main_load_fails [OF run], assumption+)
  have queuef: ?queuef
    by (intro allI impI, elim conjE, rule main_queue_fails [OF run], assumption+)
  have dnsf: ?dnsf
    by (intro allI impI, elim conjE, rule main_dns_hook_fails [OF run], assumption+)
  have connf: ?connf
    by (intro allI impI, elim conjE, rule main_connections_hook_fails [OF run], assumption+)
  have rejectf: ?rejectf
    by (intro allI impI, elim conjE, rule main_reject_hook_fails [OF run], assumption+)
  from first served openf expandf loadf queuef dnsf connf rejectf show ?thesis
    by blast
qed

text \<open>The run of each kind with the default flags: the one that serves, and one for each
  call that can fail.\<close>

theorem startup_order_witness:
  "(startup_succeeds default_config ok_system
      \<and> main default_config ok_system [7, 8 :: nat] =
       (Serving,
        [SetOutput_Discard, Flag_Parse, Set_MinLevel INFO,
         Log IMPORTANT ''Starting %s v%s'' [Str ''opensnitch-daemon'', Str ''1.0.0b''],
         ExpandPath_call ''rules'',
         Signal_Notify [SIGHUP, SIGINT, SIGTERM, SIGQUIT], Go_signal_listener,
         Log INFO ''Loading rules from %s ...'' [Str ''rules''],
         Load_call ''rules'', NewClient_call ''unix:///tmp/osui.sock'',
         Log DEBUG ''Starting %d workers ...'' [Num 16], Make_wrkChan, Go_worker 0,
         Go_worker 1, Go_worker 2, Go_worker 3, Go_worker 4, Go_worker 5,
         Go_worker 6, Go_worker 7, Go_worker 8, Go_worker 9, Go_worker 10,
         Go_worker 11, Go_worker 12, Go_worker 13, Go_worker 14, Go_worker 15,
         NewNFQueue_call 0 4096, GetPackets_call, QueueDNSResponses_call True 0,
         QueueConnections_call True 0, RejectMarked_call True,
         Log INFO ''Running on netfilter queue #%d ...'' [Num 0], Forward 7,
         Forward 8])
      \<and> started (snd (main default_config ok_system [7, 8 :: nat])) = [0, 1, 2, 3, 4, 5, 6, 7, 8, 9, 10, 11, 12, 13, 14, 15]
      \<and> hook_calls (snd (main default_config ok_system [7, 8 :: nat])) = [QueueDNSResponses_call True 0, QueueConnections_call True 0,
           RejectMarked_call True]
      \<and> forwards (snd (main default_config ok_system [7, 8 :: nat])) = [7, 8])
   \<and> (logFile logging_config \<noteq> []
      \<and> os_OpenFile unwritable_log_system (logFile logging_config) = Some ''permission denied''
      \<and> main logging_config unwritable_log_system [7, 8 :: nat] =
       (Panic ''permission denied'',
        [SetOutput_Discard, Flag_Parse, Set_MinLevel INFO,
         OpenFile_call ''/var/log/opensnitchd.log''])
      \<and> started (snd (main logging_config unwritable_log_system [7, 8 :: nat])) = []
      \<and> hook_calls (snd (main logging_config unwritable_log_system [7, 8 :: nat])) = []
      \<and> forwards (snd (main logging_config unwritable_log_system [7, 8 :: nat])) = [])
   \<and> ((main_logging default_config unexpandable_system :: string + nat event list) = Inr
        [SetOutput_Discard, Flag_Parse, Set_MinLevel INFO,
         Log IMPORTANT ''Starting %s v%s'' [Str ''opensnitch-daemon'', Str ''1.0.0b'']]
      \<and> core_ExpandPath unexpandable_system (rulesPath default_config) = Inl ''no home directory''
      \<and> main default_config unexpandable_system [7, 8 :: nat] =
       (Exited 1,
        [SetOutput_Discard, Flag_Parse, Set_MinLevel INFO,
         Log IMPORTANT ''Starting %s v%s'' [Str ''opensnitch-daemon'', Str ''1.0.0b''],
         ExpandPath_call ''rules'', Log FATAL ''%s'' [ErrorV ''no home directory''],
         Exit 1])
      \<and> started (snd (main default_config unexpandable_system [7, 8 :: nat])) = []
      \<and> hook_calls (snd (main default_config unexpandable_system [7, 8 :: nat])) = []
      \<and> forwards (snd (main default_config unexpandable_system [7, 8 :: nat])) = [])
   \<and> ((main_logging default_config unloadable_system :: string + nat event list) = Inr
        [SetOutput_Discard, Flag_Parse, Set_MinLevel INFO,
         Log IMPORTANT ''Starting %s v%s'' [Str ''opensnitch-daemon'', Str ''1.0.0b'']]
      \<and> core_ExpandPath unloadable_system (rulesPath default_config) = Inr ''rules''
      \<and> rules_Load unloadable_system ''rules'' = Some ''no such directory''
      \<and> main default_config unloadable_system [7, 8 :: nat] =
       (Exited 1,
        [SetOutput_Discard, Flag_Parse, Set_MinLevel INFO,
         Log IMPORTANT ''Starting %s v%s'' [Str ''opensnitch-daemon'', Str ''1.0.0b''],
         ExpandPath_call ''rules'',
         Signal_Notify [SIGHUP, SIGINT, SIGTERM, SIGQUIT], Go_signal_listener,
         Log INFO ''Loading rules from %s ...'' [Str ''rules''],
         Load_call ''rules'', Log FATAL ''%s'' [ErrorV ''no such directory''], Exit 1])
      \<and> started (snd (main default_config unloadable_system [7, 8 :: nat])) = []
      \<and> hook_calls (snd (main default_config unloadable_system [7, 8 :: nat])) = []
      \<and> forwards (snd (main default_config unloadable_system [7, 8 :: nat])) = [])
   \<and> ((main_logging default_config queueless_system :: string + nat event list) = Inr
        [SetOutput_Discard, Flag_Parse, Set_MinLevel INFO,
         Log IMPORTANT ''Starting %s v%s'' [Str ''opensnitch-daemon'', Str ''1.0.0b'']]
      \<and> core_ExpandPath queueless_system (rulesPath default_config) = Inr ''rules''
      \<and> rules_Load queueless_system ''rules'' = None
      \<and> netfilter_NewNFQueue queueless_system (word_of_int (queueNum default_config)) = Some ''operation not permitted''
      \<and> main default_config queueless_system [7, 8 :: nat] =
       (Exited 1,
        [SetOutput_Discard, Flag_Parse, Set_MinLevel INFO,
         Log IMPORTANT ''Starting %s v%s'' [Str ''opensnitch-daemon'', Str ''1.0.0b''],
         ExpandPath_call ''rules'',
         Signal_Notify [SIGHUP, SIGINT, SIGTERM, SIGQUIT], Go_signal_listener,
         Log INFO ''Loading rules from %s ...'' [Str ''rules''],
         Load_call ''rules'', NewClient_call ''unix:///tmp/osui.sock'',
         Log DEBUG ''Starting %d workers ...'' [Num 16], Make_wrkChan, Go_worker 0,
         Go_worker 1, Go_worker 2, Go_worker 3, Go_worker 4, Go_worker 5,
         Go_worker 6, Go_worker 7, Go_worker 8, Go_worker 9, Go_worker 10,
         Go_worker 11, Go_worker 12, Go_worker 13, Go_worker 14, Go_worker 15,
         NewNFQueue_call 0 4096,
         Log FATAL ''Error while creating queue #%d: %s'' [Num 0, ErrorV ''operation not permitted''],
         Exit 1])
      \<and> started (snd (main default_config queueless_system [7, 8 :: nat])) = [0, 1, 2, 3, 4, 5, 6, 7, 8, 9, 10, 11, 12, 13, 14, 15]
      \<and> hook_calls (snd (main default_config queueless_system [7, 8 :: nat])) = []
      \<and> forwards (snd (main default_config queueless_system [7, 8 :: nat])) = [])
   \<and> ((main_logging default_config dns_hook_failing_system :: string + nat event list) = Inr
        [SetOutput_Discard, Flag_Parse, Set_MinLevel INFO,
         Log IMPORTANT ''Starting %s v%s'' [Str ''opensnitch-daemon'', Str ''1.0.0b'']]
      \<and> core_ExpandPath dns_hook_failing_system (rulesPath default_config) = Inr ''rules''
      \<and> firewall_QueueDNSResponses dns_hook_failing_system True (queueNum default_config) = Some ''iptables failed''
      \<and> main default_config dns_hook_failing_system [7, 8 :: nat] =
       (Exited 1,
        [SetOutput_Discard, Flag_Parse, Set_MinLevel INFO,
         Log IMPORTANT ''Starting %s v%s'' [Str ''opensnitch-daemon'', Str ''1.0.0b''],
         ExpandPath_call ''rules'',
         Signal_Notify [SIGHUP, SIGINT, SIGTERM, SIGQUIT], Go_signal_listener,
         Log INFO ''Loading rules from %s ...'' [Str ''rules''],
         Load_call ''rules'', NewClient_call ''unix:///tmp/osui.sock'',
         Log DEBUG ''Starting %d workers ...'' [Num 16], Make_wrkChan, Go_worker 0,
         Go_worker 1, Go_worker 2, Go_worker 3, Go_worker 4, Go_worker 5,
         Go_worker 6, Go_worker 7, Go_worker 8, Go_worker 9, Go_worker 10,
         Go_worker 11, Go_worker 12, Go_worker 13, Go_worker 14, Go_worker 15,
         NewNFQueue_call 0 4096, GetPackets_call, QueueDNSResponses_call True 0,
         Log FATAL ''Error while running DNS firewall rule: %s'' [ErrorV ''iptables failed''],
         Exit 1])
      \<and> started (snd (main default_config dns_hook_failing_system [7, 8 :: nat])) = [0, 1, 2, 3, 4, 5, 6, 7, 8, 9, 10, 11, 12, 13, 14, 15]
      \<and> hook_calls (snd (main default_config dns_hook_failing_system [7, 8 :: nat])) = [QueueDNSResponses_call True 0]
      \<and> forwards (snd (main default_config dns_hook_failing_system [7, 8 :: nat])) = [])
   \<and> ((main_logging default_config connections_hook_failing_system :: string + nat event list) = Inr
        [SetOutput_Discard, Flag_Parse, Set_MinLevel INFO,
         Log IMPORTANT ''Starting %s v%s'' [Str ''opensnitch-daemon'', Str ''1.0.0b'']]
      \<and> core_ExpandPath connections_hook_failing_system (rulesPath default_config) = Inr ''rules''
      \<and> firewall_QueueConnections connections_hook_failing_system True (queueNum default_config) = Some ''iptables failed''
      \<and> main default_config connections_hook_failing_system [7, 8 :: nat] =
       (Exited 1,
        [SetOutput_Discard, Flag_Parse, Set_MinLevel INFO,
         Log IMPORTANT ''Starting %s v%s'' [Str ''opensnitch-daemon'', Str ''1.0.0b''],
         ExpandPath_call ''rules'',
         Signal_Notify [SIGHUP, SIGINT, SIGTERM, SIGQUIT], Go_signal_listener,
         Log INFO ''Loading rules from %s ...'' [Str ''rules''],
         Load_call ''rules'', NewClient_call ''unix:///tmp/osui.sock'',
         Log DEBUG ''Starting %d workers ...'' [Num 16], Make_wrkChan, Go_worker 0,
         Go_worker 1, Go_worker 2, Go_worker 3, Go_worker 4, Go_worker 5,
         Go_worker 6, Go_worker 7, Go_worker 8, Go_worker 9, Go_worker 10,
         Go_worker 11, Go_worker 12, Go_worker 13, Go_worker 14, Go_worker 15,
         NewNFQueue_call 0 4096, GetPackets_call, QueueDNSResponses_call True 0,
         QueueConnections_call True 0,
         Log FATAL ''Error while running conntrack firewall rule: %s'' [ErrorV ''iptables failed''],
         Exit 1])
      \<and> started (snd (main default_config connections_hook_failing_system [7, 8 :: nat])) = [0, 1, 2, 3, 4, 5, 6, 7, 8, 9, 10, 11, 12, 13, 14, 15]
      \<and> hook_calls (snd (main default_config connections_hook_failing_system [7, 8 :: nat])) = [QueueDNSResponses_call True 0, QueueConnections_call True 0]
      \<and> forwards (snd (main default_config connections_hook_failing_system [7, 8 :: nat])) = [])
   \<and> ((main_logging default_config reject_hook_failing_system :: string + nat event list) = Inr
        [SetOutput_Discard, Flag_Parse, Set_MinLevel INFO,
         Log IMPORTANT ''Starting %s v%s'' [Str ''opensnitch-daemon'', Str ''1.0.0b'']]
      \<and> core_ExpandPath reject_hook_failing_system (rulesPath default_config) = Inr ''rules''
      \<and> firewall_RejectMarked reject_hook_failing_system True = Some ''iptables failed''
      \<and> main default_config reject_hook_failing_system [7, 8 :: nat] =
       (Exited 1,
        [SetOutput_Discard, Flag_Parse, Set_MinLevel INFO,
         Log IMPORTANT ''Starting %s v%s'' [Str ''opensnitch-daemon'', Str ''1.0.0b''],
         ExpandPath_call ''rules'',
         Signal_Notify [SIGHUP, SIGINT, SIGTERM, SIGQUIT], Go_signal_listener,
         Log INFO ''Loading rules from %s ...'' [Str ''rules''],
         Load_call ''rules'', NewClient_call ''unix:///tmp/osui.sock'',
         Log DEBUG ''Starting %d workers ...'' [Num 16], Make_wrkChan, Go_worker 0,
         Go_worker 1, Go_worker 2, Go_worker 3, Go_worker 4, Go_worker 5,
         Go_worker 6, Go_worker 7, Go_worker 8, Go_worker 9, Go_worker 10,
         Go_worker 11, Go_worker 12, Go_worker 13, Go_worker 14, Go_worker 15,
         NewNFQueue_call 0 4096, GetPackets_call, QueueDNSResponses_call True 0,
         QueueConnections_call True 0, RejectMarked_call True,
         Log FATAL ''Error while running reject firewall rule: %s'' [ErrorV ''iptables failed''],
         Exit 1])
      \<and> started (snd (main default_config reject_hook_failing_system [7, 8 :: nat])) = [0, 1, 2, 3, 4, 5, 6, 7, 8, 9, 10, 11, 12, 13, 14, 15]
      \<and> hook_calls (snd (main default_config reject_hook_failing_system [7, 8 :: nat])) = [QueueDNSResponses_call True 0, QueueConnections_call True 0,
           RejectMarked_call True]
      \<and> forwards (snd (main default_config reject_hook_failing_system [7, 8 :: nat])) = [])"
  (is "?ok \<and> ?openf \<and> ?expandf \<and> ?loadf \<and> ?queuef \<and> ?dnsf \<and> ?connf \<and> ?rejectf")
proof -
  have ok: ?ok
    using startup_order [of default_config ok_system "[7, 8 :: nat]"
            "fst (main default_config ok_system [7, 8 :: nat])"
            "snd (main default_config ok_system [7, 8 :: nat])"]
    by (simp add: main_def main_firewall_def main_logging_def log_Fatal_def serve_def
        setupSignals_def setupWorkers_def startup_succeeds_def default_config_def ok_system_def
        logging_config_def unwritable_log_system_def unexpandable_system_def
        unloadable_system_def queueless_system_def dns_hook_failing_system_def
        connections_hook_failing_system_def reject_hook_failing_system_def
        Let_def forwards_def started_def hook_calls_def upto.simps)
  have openf: ?openf
    using startup_order [of logging_config unwritable_log_system "[7, 8 :: nat]"
            "fst (main logging_config unwritable_log_system [7, 8 :: nat])"
            "snd (main logging_config unwritable_log_system [7, 8 :: nat])"]
    by (simp add: main_def main_firewall_def main_logging_def log_Fatal_def serve_def
        setupSignals_def setupWorkers_def startup_succeeds_def default_config_def ok_system_def
        logging_config_def unwritable_log_system_def unexpandable_system_def
        unloadable_system_def queueless_system_def dns_hook_failing_system_def
        connections_hook_failing_system_def reject_hook_failing_system_def
        Let_def forwards_def started_def hook_calls_def upto.simps)
  have expandf: ?expandf
    using startup_order [of default_config unexpandable_system "[7, 8 :: nat]"
            "fst (main default_config unexpandable_system [7, 8 :: nat])"
            "snd (main default_config unexpandable_system [7, 8 :: nat])"]
    by (simp add: main_def main_firewall_def main_logging_def log_Fatal_def serve_def
        setupSignals_def setupWorkers_def startup_succeeds_def default_config_def ok_system_def
        logging_config_def unwritable_log_system_def unexpandable_system_def
        unloadable_system_def queueless_system_def dns_hook_failing_system_def
        connections_hook_failing_system_def reject_hook_failing_system_def
        Let_def forwards_def started_def hook_calls_def upto.simps)
  have loadf: ?loadf
    using startup_order [of default_config unloadable_system "[7, 8 :: nat]"
            "fst (main default_config unloadable_system [7, 8 :: nat])"
            "snd (main default_config unloadable_system [7, 8 :: nat])"]
    by (simp add: main_def main_firewall_def main_logging_def log_Fatal_def serve_def
        setupSignals_def setupWorkers_def startup_succeeds_def default_config_def ok_system_def
        logging_config_def unwritable_log_system_def unexpandable_system_def
        unloadable_system_def queueless_system_def dns_hook_failing_system_def
        connections_hook_failing_system_def reject_hook_failing_system_def
        Let_def forwards_def started_def hook_calls_def upto.simps)
  have queuef: ?queuef
    using startup_order [of default_config queueless_system "[7, 8 :: nat]"
            "fst (main default_config queueless_system [7, 8 :: nat])"
            "snd (main default_config queueless_system [7, 8 :: nat])"]
    by (simp add: main_def main_firewall_def main_logging_def log_Fatal_def serve_def
        setupSignals_def setupWorkers_def startup_succeeds_def default_config_def ok_system_def
        logging_config_def unwritable_log_system_def unexpandable_system_def
        unloadable_system_def queueless_system_def dns_hook_failing_system_def
        connections_hook_failing_system_def reject_hook_failing_system_def
        Let_def forwards_def started_def hook_calls_def upto.simps)
  have dnsf: ?dnsf
    using startup_order [of default_config dns_hook_failing_system "[7, 8 :: nat]"
            "fst (main default_config dns_hook_failing_system [7, 8 :: nat])"
            "snd (main default_config dns_hook_failing_system [7, 8 :: nat])"]
    by (simp add: main_def main_firewall_def main_logging_def log_Fatal_def serve_def
        setupSignals_def setupWorkers_def startup_succeeds_def default_config_def ok_system_def
        logging_config_def unwritable_log_system_def unexpandable_system_def
        unloadable_system_def queueless_system_def dns_hook_failing_system_def
        connections_hook_failing_system_def reject_hook_failing_system_def
        Let_def forwards_def started_def hook_calls_def upto.simps)
  have connf: ?connf
    using startup_order [of default_config connections_hook_failing_system "[7, 8 :: nat]"
            "fst (main default_config connections_hook_failing_system [7, 8 :: nat])"
            "snd (main default_config connections_hook_failing_system [7, 8 :: nat])"]
    by (simp add: main_def main_firewall_def main_logging_def log_Fatal_def serve_def
        setupSignals_def setupWorkers_def startup_succeeds_def default_config_def ok_system_def
        logging_config_def unwritable_log_system_def unexpandable_system_def
        unloadable_system_def queueless_system_def dns_hook_failing_system_def
        connections_hook_failing_system_def reject_hook_failing_system_def
        Let_def forwards_def started_def hook_calls_def upto.simps)
  have rejectf: ?rejectf
    using startup_order [of default_config reject_hook_failing_system "[7, 8 :: nat]"
            "fst (main default_config reject_hook_failing_system [7, 8 :: nat])"
            "snd (main default_config reject_hook_failing_system [7, 8 :: nat])"]
    by (simp add: main_def main_firewall_def main_logging_def log_Fatal_def serve_def
        setupSignals_def setupWorkers_def startup_succeeds_def default_config_def ok_system_def
        logging_config_def unwritable_log_system_def unexpandable_system_def
        unloadable_system_def queueless_system_def dns_hook_failing_system_def
        connections_hook_failing_system_def reject_hook_failing_system_def
        Let_def forwards_def started_def hook_calls_def upto.simps)
  from ok openf expandf loadf queuef dnsf connf rejectf show ?thesis
    by blast
qed

text \<open>
  C5, as the claim has it, installs the hooks before it starts the workers. In the run
  with the default flags no hook is installed before worker 0 is started, and the last
  worker is started before the first hook is installed.
\<close>

theorem hooks_before_workers_fails:
  "\<not> precedes (QueueDNSResponses_call True 0) (Go_worker 0)
       (snd (main default_config ok_system [7, 8 :: nat]))
   \<and> \<not> precedes (QueueConnections_call True 0) (Go_worker 0)
       (snd (main default_config ok_system [7, 8 :: nat]))
   \<and> \<not> precedes (RejectMarked_call True) (Go_worker 0)
       (snd (main default_config ok_system [7, 8 :: nat]))
   \<and> precedes (Go_worker 15) (QueueDNSResponses_call True 0)
       (snd (main default_config ok_system [7, 8 :: nat]))"
  by (simp add: main_def main_firewall_def main_logging_def log_Fatal_def serve_def
        setupSignals_def setupWorkers_def default_config_def ok_system_def
        Let_def upto.simps)

end
